theory Spec2Isabelle
  imports Complex_Main "HOL-Library.Char_ord" "HOL-Library.List_Lexorder"
begin

section \<open>Python values used by the three Lambda functions\<close>

subsection \<open>Exceptions and remote-call outcomes\<close>

text \<open>
  The exception classes the modelled code can meet. Every handler in the source is
  \<^verbatim>\<open>except Exception\<close> (or \<^verbatim>\<open>except ValueError\<close> around \<^verbatim>\<open>strptime\<close>), so the class
  only matters for reading the model.
\<close>

datatype py_error = ValueError | KeyError | OverflowError | ZeroDivisionError

text \<open>
  A call to a remote service (EC2, DynamoDB, SNS) either returns its answer or raises;
  \<open>Raised msg\<close> carries \<^verbatim>\<open>str(e)\<close>.
\<close>

datatype 'a outcome = Returned 'a | Raised string

definition returned :: "'a outcome \<Rightarrow> bool" where
  "returned r = (case r of Returned x \<Rightarrow> True | Raised msg \<Rightarrow> False)"

subsection \<open>Floats\<close>

text \<open>
  A Python \<^verbatim>\<open>float\<close> is an IEEE 754 binary64 value. A finite one is represented by the
  rational number it denotes; the sign of zero is not represented (it is visible only
  when a zero is printed). Every operation computes the exact result and rounds it to
  the nearest representable value, ties to even (\<open>rnd\<close>).
\<close>

datatype double = Finite rat | PosInf | NegInf | NaN

definition pow2 :: "int \<Rightarrow> rat" where
  "pow2 e = (if 0 \<le> e then 2 ^ nat e else 1 / 2 ^ nat (- e))"

function bit_length :: "int \<Rightarrow> int" where
  \<comment> \<open>\<^verbatim>\<open>int.bit_length()\<close> of a non-negative integer\<close>
  "bit_length n = (if n \<le> 0 then 0 else 1 + bit_length (n div 2))"
  by pat_completeness auto
termination
  by (relation "measure nat") auto

declare bit_length.simps [simp del]

definition ilog2 :: "rat \<Rightarrow> int" where
  \<comment> \<open>for \<open>x \<noteq> 0\<close>: the \<open>e\<close> with \<open>2^e \<le> |x| < 2^(e+1)\<close>\<close>
  "ilog2 x =
     (let (p, q) = quotient_of \<bar>x\<bar>;
          d = bit_length p - bit_length q
      in if pow2 d \<le> \<bar>x\<bar> then d else d - 1)"

definition round_half_even :: "rat \<Rightarrow> int" where
  "round_half_even x =
     (let f = \<lfloor>x\<rfloor>; r = x - of_int f
      in if r < 1 / 2 then f
         else if 1 / 2 < r then f + 1
         else if even f then f else f + 1)"

definition rnd :: "rat \<Rightarrow> double" where
  \<comment> \<open>53 significant bits, exponents -1022 .. 1023, gradual underflow, overflow to infinity\<close>
  "rnd x =
     (if x = 0 then Finite 0
      else
        let e = max (ilog2 x) (- 1022);
            q = pow2 (e - 52);
            y = of_int (round_half_even (x / q)) * q
        in if pow2 1024 \<le> \<bar>y\<bar> then (if 0 < x then PosInf else NegInf) else Finite y)"

definition dec :: "int \<Rightarrow> nat \<Rightarrow> double" where
  \<comment> \<open>the float literal with digits \<open>m\<close> and \<open>k\<close> decimal places: \<open>dec 114 3\<close> is \<^verbatim>\<open>0.114\<close>\<close>
  "dec m k = rnd (of_int m / 10 ^ k)"

definition float_of_int :: "int \<Rightarrow> py_error + double" where
  \<comment> \<open>\<^verbatim>\<open>float(n)\<close>, also the implicit conversion in \<^verbatim>\<open>n * 0.114\<close>: \<^verbatim>\<open>OverflowError\<close> when too large\<close>
  "float_of_int n = (case rnd (of_int n) of Finite y \<Rightarrow> Inr (Finite y) | _ \<Rightarrow> Inl OverflowError)"

fun fadd :: "double \<Rightarrow> double \<Rightarrow> double" where
  "fadd (Finite a) (Finite b) = rnd (a + b)"
| "fadd NaN y = NaN"
| "fadd (Finite a) NaN = NaN"
| "fadd PosInf NaN = NaN"
| "fadd NegInf NaN = NaN"
| "fadd PosInf NegInf = NaN"
| "fadd NegInf PosInf = NaN"
| "fadd PosInf PosInf = PosInf"
| "fadd PosInf (Finite b) = PosInf"
| "fadd NegInf NegInf = NegInf"
| "fadd NegInf (Finite b) = NegInf"
| "fadd (Finite a) PosInf = PosInf"
| "fadd (Finite a) NegInf = NegInf"

fun fneg :: "double \<Rightarrow> double" where
  "fneg (Finite a) = Finite (- a)"
| "fneg PosInf = NegInf"
| "fneg NegInf = PosInf"
| "fneg NaN = NaN"

fun fsgn :: "double \<Rightarrow> int" where
  "fsgn (Finite a) = (if 0 < a then 1 else if a < 0 then - 1 else 0)"
| "fsgn PosInf = 1"
| "fsgn NegInf = - 1"
| "fsgn NaN = 0"

definition signed_inf :: "int \<Rightarrow> double" where
  "signed_inf s = (if s = 0 then NaN else if 0 < s then PosInf else NegInf)"

fun fmul :: "double \<Rightarrow> double \<Rightarrow> double" where
  "fmul (Finite a) (Finite b) = rnd (a * b)"
| "fmul NaN y = NaN"
| "fmul (Finite a) NaN = NaN"
| "fmul PosInf NaN = NaN"
| "fmul NegInf NaN = NaN"
| "fmul (Finite a) PosInf = signed_inf (fsgn (Finite a))"
| "fmul (Finite a) NegInf = signed_inf (- fsgn (Finite a))"
| "fmul PosInf y = signed_inf (fsgn y)"
| "fmul NegInf y = signed_inf (- fsgn y)"

definition fdiv :: "double \<Rightarrow> double \<Rightarrow> py_error + double" where
  \<comment> \<open>\<^verbatim>\<open>x / y\<close>: Python raises on a zero divisor whatever the dividend\<close>
  "fdiv x y =
     (case y of
        Finite b \<Rightarrow>
          if b = 0 then Inl ZeroDivisionError
          else (case x of
                  Finite a \<Rightarrow> Inr (rnd (a / b))
                | NaN \<Rightarrow> Inr NaN
                | _ \<Rightarrow> Inr (signed_inf (fsgn x * fsgn y)))
      | NaN \<Rightarrow> Inr NaN
      | _ \<Rightarrow> (case x of Finite a \<Rightarrow> Inr (Finite 0) | _ \<Rightarrow> Inr NaN))"

fun fgt :: "double \<Rightarrow> double \<Rightarrow> bool" where
  "fgt (Finite a) (Finite b) = (b < a)"
| "fgt NaN y = False"
| "fgt (Finite a) NaN = False"
| "fgt PosInf NaN = False"
| "fgt NegInf NaN = False"
| "fgt PosInf y = (y \<noteq> PosInf)"
| "fgt NegInf y = False"
| "fgt (Finite a) PosInf = False"
| "fgt (Finite a) NegInf = True"

fun py_round :: "double \<Rightarrow> nat \<Rightarrow> double" where
  \<comment> \<open>\<^verbatim>\<open>round(x, n)\<close>: the decimal with \<open>n\<close> places nearest to the exact value of \<open>x\<close>
      (ties to even), converted back to a float\<close>
  "py_round (Finite a) n = rnd (of_int (round_half_even (a * 10 ^ n)) / 10 ^ n)"
| "py_round x n = x"

subsection \<open>Calendar dates\<close>

text \<open>
  \<^verbatim>\<open>datetime.date\<close>: a year, a month and a day of the proleptic Gregorian calendar, with
  the day-number conversions of the standard library (\<^verbatim>\<open>_ymd2ord\<close>, \<^verbatim>\<open>_ord2ymd\<close>).
\<close>

record date =
  year :: int
  month :: int
  day :: int

definition is_leap :: "int \<Rightarrow> bool" where
  "is_leap y = (y mod 4 = 0 \<and> (y mod 100 \<noteq> 0 \<or> y mod 400 = 0))"

definition days_in_month_of :: "bool \<Rightarrow> int \<Rightarrow> int" where
  \<comment> \<open>\<^verbatim>\<open>_DAYS_IN_MONTH[month] + (month == 2 and leap)\<close>\<close>
  "days_in_month_of leap m =
     (if m = 2 then (if leap then 29 else 28)
      else if m = 4 \<or> m = 6 \<or> m = 9 \<or> m = 11 then 30 else 31)"

definition days_before_month_of :: "bool \<Rightarrow> int \<Rightarrow> int" where
  \<comment> \<open>\<^verbatim>\<open>_DAYS_BEFORE_MONTH[month] + (month > 2 and leap)\<close>\<close>
  "days_before_month_of leap m =
     [0, 31, 59, 90, 120, 151, 181, 212, 243, 273, 304, 334] ! nat (m - 1)
       + (if 2 < m \<and> leap then 1 else 0)"

definition days_in_month :: "int \<Rightarrow> int \<Rightarrow> int" where
  "days_in_month y m = days_in_month_of (is_leap y) m"

definition days_before_month :: "int \<Rightarrow> int \<Rightarrow> int" where
  "days_before_month y m = days_before_month_of (is_leap y) m"

definition days_before_year :: "int \<Rightarrow> int" where
  "days_before_year y = (y - 1) * 365 + (y - 1) div 4 - (y - 1) div 100 + (y - 1) div 400"

definition valid_date :: "date \<Rightarrow> bool" where
  "valid_date d =
     (1 \<le> year d \<and> year d \<le> 9999 \<and> 1 \<le> month d \<and> month d \<le> 12 \<and>
      1 \<le> day d \<and> day d \<le> days_in_month (year d) (month d))"

definition toordinal :: "date \<Rightarrow> int" where
  "toordinal d = days_before_year (year d) + days_before_month (year d) (month d) + day d"


definition date_ge :: "date \<Rightarrow> date \<Rightarrow> bool" where
  \<comment> \<open>\<^verbatim>\<open>a >= b\<close> on dates: the triples compared lexicographically\<close>
  "date_ge a b =
     (year b < year a \<or>
      (year a = year b \<and> (month b < month a \<or> (month a = month b \<and> day b \<le> day a))))"


subsection \<open>Strings: digits, dates in and out, \<^verbatim>\<open>str.replace\<close>\<close>

definition is_digit :: "char \<Rightarrow> bool" where
  "is_digit c = (48 \<le> (of_char c :: nat) \<and> (of_char c :: nat) \<le> 57)"

definition digit_value :: "char \<Rightarrow> int" where
  "digit_value c = int (of_char c) - 48"

definition in_range :: "char \<Rightarrow> char \<Rightarrow> char \<Rightarrow> bool" where
  \<comment> \<open>the character class \<^verbatim>\<open>[a-b]\<close>\<close>
  "in_range a b c = ((of_char a :: nat) \<le> of_char c \<and> (of_char c :: nat) \<le> of_char b)"

definition digit_char :: "int \<Rightarrow> char" where
  "digit_char k = ''0123456789'' ! nat k"

function str_nat :: "int \<Rightarrow> string" where
  \<comment> \<open>\<^verbatim>\<open>str(n)\<close> of a non-negative integer\<close>
  "str_nat n = (if n < 10 then [digit_char n] else str_nat (n div 10) @ [digit_char (n mod 10)])"
  by pat_completeness auto
termination
  by (relation "measure nat") auto

declare str_nat.simps [simp del]

definition pad2 :: "int \<Rightarrow> string" where
  \<comment> \<open>\<^verbatim>\<open>%02d\<close>\<close>
  "pad2 n = (if n < 10 then CHR ''0'' # str_nat n else str_nat n)"

definition pad4 :: "int \<Rightarrow> string" where
  \<comment> \<open>\<^verbatim>\<open>%04d\<close>\<close>
  "pad4 n = replicate (4 - length (str_nat n)) (CHR ''0'') @ str_nat n"

definition isoformat :: "date \<Rightarrow> string" where
  \<comment> \<open>\<^verbatim>\<open>date.isoformat()\<close>, and \<^verbatim>\<open>strftime('%Y-%m-%d')\<close> for the years 1000 to 9999
      (below 1000 the C library decides whether \<^verbatim>\<open>%Y\<close> pads the year)\<close>
  "isoformat d = pad4 (year d) @ ''-'' @ pad2 (month d) @ ''-'' @ pad2 (day d)"

fun format_2f :: "double \<Rightarrow> string" where
  \<comment> \<open>the format \<^verbatim>\<open>:.2f\<close>: the exact value rounded to two places, ties to even\<close>
  "format_2f (Finite a) =
     (let k = round_half_even (\<bar>a\<bar> * 100)
      in (if a < 0 then ''-'' else []) @ str_nat (k div 100) @ ''.'' @ pad2 (k mod 100))"
| "format_2f PosInf = ''inf''"
| "format_2f NegInf = ''-inf''"
| "format_2f NaN = ''nan''"

text \<open>
  \<^verbatim>\<open>datetime.strptime(s, '%Y-%m-%d').date()\<close>. The library matches the regular expression
  \<^verbatim>\<open>(\d\d\d\d)-(1[0-2]|0[1-9]|[1-9])-(3[0-1]|[1-2]\d|0[1-9]|[1-9]| [1-9])\<close> against the
  start of the string, refuses unconverted trailing data, and then builds the date,
  which refuses year 0 and a day the month does not have. \<open>None\<close> is \<^verbatim>\<open>ValueError\<close>.
  Only ASCII digits are modelled.
\<close>

fun match_month :: "string \<Rightarrow> (int \<times> string) option" where
  "match_month (a # b # c # rest) =
     (if a = CHR ''1'' \<and> in_range (CHR ''0'') (CHR ''2'') b \<and> c = CHR ''-''
        then Some (10 + digit_value b, rest)
      else if a = CHR ''0'' \<and> in_range (CHR ''1'') (CHR ''9'') b \<and> c = CHR ''-''
        then Some (digit_value b, rest)
      else if in_range (CHR ''1'') (CHR ''9'') a \<and> b = CHR ''-''
        then Some (digit_value a, c # rest)
      else None)"
| "match_month [a, b] =
     (if in_range (CHR ''1'') (CHR ''9'') a \<and> b = CHR ''-'' then Some (digit_value a, []) else None)"
| "match_month s = None"

fun match_day :: "string \<Rightarrow> int option" where
  "match_day [a, b] =
     (if a = CHR ''3'' \<and> in_range (CHR ''0'') (CHR ''1'') b then Some (30 + digit_value b)
      else if in_range (CHR ''1'') (CHR ''2'') a \<and> is_digit b
        then Some (10 * digit_value a + digit_value b)
      else if a = CHR ''0'' \<and> in_range (CHR ''1'') (CHR ''9'') b then Some (digit_value b)
      else if a = CHR '' '' \<and> in_range (CHR ''1'') (CHR ''9'') b then Some (digit_value b)
      else None)"
| "match_day [a] = (if in_range (CHR ''1'') (CHR ''9'') a then Some (digit_value a) else None)"
| "match_day s = None"

definition make_date :: "int \<Rightarrow> int \<Rightarrow> int \<Rightarrow> date option" where
  "make_date y m d =
     (if valid_date \<lparr>year = y, month = m, day = d\<rparr> then Some \<lparr>year = y, month = m, day = d\<rparr>
      else None)"

fun strptime :: "string \<Rightarrow> date option" where
  "strptime (y1 # y2 # y3 # y4 # dash # rest) =
     (if is_digit y1 \<and> is_digit y2 \<and> is_digit y3 \<and> is_digit y4 \<and> dash = CHR ''-''
      then (case match_month rest of
              None \<Rightarrow> None
            | Some (m, rest') \<Rightarrow>
                (case match_day rest' of
                   None \<Rightarrow> None
                 | Some d \<Rightarrow>
                     make_date (1000 * digit_value y1 + 100 * digit_value y2
                                + 10 * digit_value y3 + digit_value y4) m d))
      else None)"
| "strptime s = None"

function replace_with_empty :: "string \<Rightarrow> string \<Rightarrow> string" where
  \<comment> \<open>\<^verbatim>\<open>s.replace(old, '')\<close> for a non-empty \<open>old\<close>: every occurrence, left to right,
      without overlap\<close>
  "replace_with_empty old s =
     (case s of
        [] \<Rightarrow> []
      | c # cs \<Rightarrow>
          if old \<noteq> [] \<and> take (length old) s = old
          then replace_with_empty old (drop (length old) s)
          else c # replace_with_empty old cs)"
  by pat_completeness auto
termination
  by (relation "measure (\<lambda>(old, s). length s)") auto

declare replace_with_empty.simps [simp del]

definition TAG_KEY :: string where
  "TAG_KEY = ''CostOptimization''"

definition TAG_VALUE_PREFIX :: string where
  "TAG_VALUE_PREFIX = ''DeleteAfter-''"

section \<open>The ledger reader (\<^verbatim>\<open>cost_savings_query.py\<close>)\<close>

text \<open>
  The handler starts its running total as the integer \<^verbatim>\<open>0\<close>; Python's \<^verbatim>\<open>0\<close> and \<^verbatim>\<open>0.0\<close> are
  equal and add alike, and the model uses the float throughout.

  One item of \<^verbatim>\<open>table.scan()\<close>, reduced to the three attributes the handler reads; an
  absent attribute is \<open>None\<close>. The savings attribute is a string in the table and the
  handler passes it through \<^verbatim>\<open>float(...)\<close>: the row holds what that conversion yields, the
  float or the exception it raises.
\<close>

record ledger_row =
  row_monthly_savings :: "(py_error + double) option"
  row_resource_type :: "string option"
  row_deleted_date :: "string option"

record savings_report =
  total_resources_deleted :: nat
  total_monthly_savings :: double
  total_annual_savings :: double
  resource_breakdown :: "(string \<times> nat) list"
  first_deletion_date :: string
  last_deletion_date :: string
  days_operating :: int
  average_savings_per_day :: double

datatype failure = RemoteFailure string | PythonFailure py_error

datatype 'a response = Status200 'a | Status500 failure

definition count_resource_type :: "(string \<times> nat) list \<Rightarrow> string \<Rightarrow> (string \<times> nat) list" where
  \<comment> \<open>\<^verbatim>\<open>if resource_type in resource_counts: resource_counts[resource_type] += 1\<close>\<close>
  "count_resource_type counts t =
     (if t \<in> set (map fst counts) then map (\<lambda>(k, v). (k, if k = t then v + 1 else v)) counts
      else counts)"

definition item_savings :: "ledger_row \<Rightarrow> py_error + double" where
  \<comment> \<open>\<^verbatim>\<open>float(item.get('monthly_savings', 0))\<close>\<close>
  "item_savings item = (case row_monthly_savings item of None \<Rightarrow> Inr (Finite 0) | Some r \<Rightarrow> r)"

definition item_resource_type :: "ledger_row \<Rightarrow> string" where
  \<comment> \<open>\<^verbatim>\<open>item.get('resource_type', 'unknown')\<close>\<close>
  "item_resource_type item = (case row_resource_type item of None \<Rightarrow> ''unknown'' | Some t \<Rightarrow> t)"

fun tally :: "ledger_row list \<Rightarrow> double \<Rightarrow> (string \<times> nat) list
                \<Rightarrow> py_error + double \<times> (string \<times> nat) list" where
  "tally [] savings_sum counts = Inr (savings_sum, counts)"
| "tally (item # items) savings_sum counts =
     (case item_savings item of
        Inl e \<Rightarrow> Inl e
      | Inr savings \<Rightarrow>
          tally items (fadd savings_sum savings)
            (count_resource_type counts (item_resource_type item)))"

fun deleted_dates :: "ledger_row list \<Rightarrow> py_error + string list" where
  \<comment> \<open>\<^verbatim>\<open>[item['deleted_date'] for item in items]\<close>\<close>
  "deleted_dates [] = Inr []"
| "deleted_dates (item # items) =
     (case row_deleted_date item of
        None \<Rightarrow> Inl KeyError
      | Some d \<Rightarrow> (case deleted_dates items of Inl e \<Rightarrow> Inl e | Inr ds \<Rightarrow> Inr (d # ds)))"

definition date_range :: "ledger_row list \<Rightarrow> py_error + string \<times> string \<times> int" where
  "date_range items =
     (if items \<noteq> [] then
        (case deleted_dates items of
           Inl e \<Rightarrow> Inl e
         | Inr dates \<Rightarrow>
             let first_deletion = foldl min (hd dates) (tl dates);
                 last_deletion = foldl max (hd dates) (tl dates)
             in (case strptime first_deletion of
                   None \<Rightarrow> Inl ValueError
                 | Some first_date \<Rightarrow>
                     (case strptime last_deletion of
                        None \<Rightarrow> Inl ValueError
                      | Some last_date \<Rightarrow>
                          Inr (first_deletion, last_deletion,
                               toordinal last_date - toordinal first_date + 1))))
      else Inr (''N/A'', ''N/A'', 0))"

definition average_per_day :: "double \<Rightarrow> py_error + double" where
  \<comment> \<open>\<^verbatim>\<open>round(total_monthly_savings / 30, 2) if total_monthly_savings > 0 else 0\<close>\<close>
  "average_per_day savings_sum =
     (if fgt savings_sum (Finite 0)
      then (case fdiv savings_sum (Finite 30) of Inl e \<Rightarrow> Inl e | Inr q \<Rightarrow> Inr (py_round q 2))
      else Inr (Finite 0))"

definition query_lambda_handler :: "ledger_row list outcome \<Rightarrow> savings_report response" where
  "query_lambda_handler scan =
     (case scan of
        Raised msg \<Rightarrow> Status500 (RemoteFailure msg)
      | Returned items \<Rightarrow>
          (case tally items (Finite 0) [(''ebs_volume'', 0), (''snapshot'', 0), (''elastic_ip'', 0)] of
             Inl e \<Rightarrow> Status500 (PythonFailure e)
           | Inr (savings_sum, resource_counts) \<Rightarrow>
               (case date_range items of
                  Inl e \<Rightarrow> Status500 (PythonFailure e)
                | Inr (first_deletion, last_deletion, days) \<Rightarrow>
                    (case average_per_day savings_sum of
                       Inl e \<Rightarrow> Status500 (PythonFailure e)
                     | Inr average \<Rightarrow>
                         Status200
                           \<lparr>total_resources_deleted = length items,
                            total_monthly_savings = py_round savings_sum 2,
                            total_annual_savings = py_round (fmul savings_sum (Finite 12)) 2,
                            resource_breakdown = resource_counts,
                            first_deletion_date = first_deletion,
                            last_deletion_date = last_deletion,
                            days_operating = days,
                            average_savings_per_day = average\<rparr>))))"

subsection \<open>A ledger of two entries\<close>

text \<open>
  A volume deletion of 2025-01-01 that saves 5.00 a month and an address release of
  2025-01-10 that saves 3.60 a month. \<^verbatim>\<open>table.scan()\<close> promises no order of the items.
\<close>

definition ebs_entry :: ledger_row where
  "ebs_entry =
     \<lparr>row_monthly_savings = Some (Inr (dec 500 2)), row_resource_type = Some ''ebs_volume'',
      row_deleted_date = Some ''2025-01-01''\<rparr>"

definition eip_entry :: ledger_row where
  "eip_entry =
     \<lparr>row_monthly_savings = Some (Inr (dec 360 2)), row_resource_type = Some ''elastic_ip'',
      row_deleted_date = Some ''2025-01-10''\<rparr>"

section \<open>The Reaper (\<^verbatim>\<open>resource_cleanup.py\<close>)\<close>

subsection \<open>Resources, results and the remote services\<close>

record tag =
  Key :: string
  Value :: string

text \<open>
  Dictionaries with fixed keys are records. Several of them share keys, so the fields
  of a record carry its initials (\<open>dv_volume_id\<close> is the key \<^verbatim>\<open>volume_id\<close> of an entry of
  \<^verbatim>\<open>volumes_deleted\<close>, \<open>li_resource_id\<close> the attribute \<^verbatim>\<open>resource_id\<close> of a ledger item).

  The fields of the EC2 descriptions that the code reads. \<open>Attachments\<close> holds the
  instance of each attachment; \<open>AssociationId\<close> is \<open>None\<close> when the key is absent from
  the address; the tag lists are \<^verbatim>\<open>resource.get('Tags', [])\<close>.
\<close>

record volume =
  VolumeId :: string
  Size :: int
  VolumeType :: string
  Attachments :: "string list"
  AvailabilityZone :: string
  CreateTime :: int
  VolumeTags :: "tag list"

record snapshot =
  SnapshotId :: string
  VolumeSize :: int
  StartTime :: int
  Description :: "string option"
  SnapshotTags :: "tag list"

record address =
  AllocationId :: string
  PublicIp :: string
  AssociationId :: "string option"
  AddressTags :: "tag list"

record deleted_volume =
  dv_volume_id :: string
  dv_size_gb :: int
  dv_volume_type :: string
  dv_monthly_savings :: double
  dv_snapshot_id :: "string option"
  dv_deleted_date :: string

record deleted_snapshot =
  ds_snapshot_id :: string
  ds_size_gb :: int
  ds_monthly_savings :: double
  ds_deleted_date :: string

record released_eip =
  re_allocation_id :: string
  re_public_ip :: string
  re_monthly_savings :: double
  re_released_date :: string

record skipped_volume =
  sv_volume_id :: string
  sv_reason :: string

record skipped_snapshot =
  ss_snapshot_id :: string
  ss_reason :: string

record cleanup_results =
  volumes_deleted :: "deleted_volume list"
  snapshots_deleted :: "deleted_snapshot list"
  eips_released :: "released_eip list"
  volumes_skipped :: "skipped_volume list"
  snapshots_skipped :: "skipped_snapshot list"
  total_savings_monthly :: double

text \<open>
  The item written to the ledger table. An attribute the item does not have is \<open>None\<close>.
  The source stores \<^verbatim>\<open>str(monthly_savings)\<close>; the item holds the float that is printed.
\<close>

record ledger_item =
  li_deletion_id :: string
  li_deleted_date :: string
  li_resource_type :: string
  li_resource_id :: string
  li_size_gb :: "int option"
  li_volume_type :: "string option"
  li_monthly_savings :: double
  li_snapshot_id :: "string option"
  li_public_ip :: "string option"

text \<open>
  The calls the Reaper makes. The trace of a run lists them in order, each with whether
  it returned (\<open>True\<close>) or raised. The three describe calls carry the tag filter
  \<^verbatim>\<open>tag:CostOptimization = DeleteAfter-*\<close>.
\<close>

datatype reaper_call =
    DescribeVolumes
  | DescribeSnapshots
  | DescribeAddresses
  | CreateSnapshot string string "tag list"
  | DeleteVolume string
  | DeleteSnapshot string
  | ReleaseAddress string
  | PutItem ledger_item
  | Publish string string

type_synonym reaper_trace = "(reaper_call \<times> bool) list"

datatype scan = VolumeScan | SnapshotScan | AddressScan

text \<open>
  The remote services as the run meets them: every answer may depend on all calls made
  so far. \<open>utc_today\<close> is \<^verbatim>\<open>datetime.now(timezone.utc).date()\<close>, read once by each of the
  three scans.
\<close>

record reaper_aws =
  describe_volumes :: "reaper_trace \<Rightarrow> volume list outcome"
  describe_snapshots :: "reaper_trace \<Rightarrow> snapshot list outcome"
  describe_addresses :: "reaper_trace \<Rightarrow> address list outcome"
  create_snapshot :: "reaper_trace \<Rightarrow> string \<Rightarrow> string outcome"
  delete_volume :: "reaper_trace \<Rightarrow> string \<Rightarrow> unit outcome"
  delete_snapshot :: "reaper_trace \<Rightarrow> string \<Rightarrow> unit outcome"
  release_address :: "reaper_trace \<Rightarrow> string \<Rightarrow> unit outcome"
  put_item :: "reaper_trace \<Rightarrow> ledger_item \<Rightarrow> unit outcome"
  publish :: "reaper_trace \<Rightarrow> string \<Rightarrow> string \<Rightarrow> string outcome"
  utc_today :: "scan \<Rightarrow> date"

text \<open>
  What the run prints about single resources and about failures, one constructor for
  each \<^verbatim>\<open>print\<close> with the values it interpolates. The banners and the report block,
  which print counts and totals only, are left out.
\<close>

datatype log_line =
    InvalidDateFormat string string
  | SkippedNowAttached string
  | CreatedSafetySnapshot string
  | ErrorCreatingSnapshot string string
  | DryRunWouldDeleteVolume string int string double
  | DeletedVolume string int string double
  | ErrorDeletingVolume string string
  | GracePeriodActive string int
  | VolumesSummary nat nat
  | ErrorInVolumeCleanup failure
  | DryRunWouldDeleteSnapshot string int double
  | DeletedSnapshot string int double
  | ErrorDeletingSnapshot string string
  | SnapshotsSummary nat
  | ErrorInSnapshotCleanup failure
  | SkippedNowAssociated string string
  | DryRunWouldReleaseEip string string double
  | ReleasedEip string string double
  | ErrorReleasingEip string string
  | EipsSummary nat
  | ErrorInEipCleanup failure
  | LoggedDeletions nat
  | ErrorLoggingToDynamoDB string
  | SmsSent string
  | ErrorSendingSns string

text \<open>
  The state a run threads through: the \<^verbatim>\<open>results\<close> dictionary, the calls made and the
  lines printed.
\<close>

record reaper_state =
  results :: cleanup_results
  trace :: reaper_trace
  stdout :: "log_line list"

definition called :: "reaper_call \<Rightarrow> bool \<Rightarrow> reaper_state \<Rightarrow> reaper_state" where
  "called c ok s = s\<lparr>trace := trace s @ [(c, ok)]\<rparr>"

definition printed :: "log_line \<Rightarrow> reaper_state \<Rightarrow> reaper_state" where
  "printed l s = s\<lparr>stdout := stdout s @ [l]\<rparr>"

subsection \<open>Reading the deadline tag\<close>

fun tags_deadline :: "tag list \<Rightarrow> date option \<Rightarrow> date option" where
  \<comment> \<open>the loop over the tags; the second argument is \<^verbatim>\<open>delete_after_date\<close> so far\<close>
  "tags_deadline [] delete_after_date = delete_after_date"
| "tags_deadline (t # ts) delete_after_date =
     (if Key t = TAG_KEY then
        (case strptime (replace_with_empty TAG_VALUE_PREFIX (Value t)) of
           Some d \<Rightarrow> tags_deadline ts (Some d)
         | None \<Rightarrow> tags_deadline ts delete_after_date)
      else tags_deadline ts delete_after_date)"

definition invalid_deadline_values :: "tag list \<Rightarrow> string list" where
  \<comment> \<open>the tag values the volume scan reports as an invalid date format\<close>
  "invalid_deadline_values ts =
     map Value
       (filter (\<lambda>t. Key t = TAG_KEY \<and> strptime (replace_with_empty TAG_VALUE_PREFIX (Value t)) = None)
          ts)"

subsection \<open>Prices\<close>

definition price_per_gb :: "(string \<times> double) list" where
  "price_per_gb =
     [(''gp2'', dec 114 3), (''gp3'', dec 91 3), (''io1'', dec 143 3), (''io2'', dec 143 3),
      (''sc1'', dec 29 3), (''st1'', dec 51 3), (''standard'', dec 57 3)]"

definition price_of :: "string \<Rightarrow> double" where
  \<comment> \<open>\<^verbatim>\<open>price_per_gb.get(volume_type, 0.10)\<close>\<close>
  "price_of volume_type = (case map_of price_per_gb volume_type of Some p \<Rightarrow> p | None \<Rightarrow> dec 10 2)"

definition volume_cost :: "int \<Rightarrow> string \<Rightarrow> py_error + double" where
  \<comment> \<open>\<^verbatim>\<open>size_gb * price_per_gb.get(volume_type, 0.10)\<close>\<close>
  "volume_cost size_gb volume_type =
     (case float_of_int size_gb of Inl e \<Rightarrow> Inl e | Inr x \<Rightarrow> Inr (fmul x (price_of volume_type)))"

definition snapshot_cost :: "int \<Rightarrow> py_error + double" where
  \<comment> \<open>\<^verbatim>\<open>size_gb * 0.057\<close>\<close>
  "snapshot_cost size_gb =
     (case float_of_int size_gb of Inl e \<Rightarrow> Inl e | Inr x \<Rightarrow> Inr (fmul x (dec 57 3)))"

definition eip_cost :: double where
  \<comment> \<open>\<^verbatim>\<open>0.005 * 24 * 30\<close>\<close>
  "eip_cost = fmul (fmul (dec 5 3) (Finite 24)) (Finite 30)"

subsection \<open>\<^verbatim>\<open>cleanup_expired_volumes\<close>\<close>

text \<open>
  \<^verbatim>\<open>DRY_RUN\<close> is a module constant (\<^verbatim>\<open>False\<close> in the source); it is the parameter
  \<open>dry_run\<close> here. The body of the loop returns the new state and, when an exception
  leaves the body for the handler around the whole scan, that exception.
\<close>

definition snapshot_request :: "string \<Rightarrow> date \<Rightarrow> reaper_call" where
  "snapshot_request volume_id today =
     CreateSnapshot volume_id
       (''Pre-deletion snapshot of '' @ volume_id @ '' by automated cleanup'')
       [\<lparr>Key = ''Name'', Value = ''AutoCleanup-'' @ volume_id\<rparr>,
        \<lparr>Key = ''OriginalVolumeId'', Value = volume_id\<rparr>,
        \<lparr>Key = ''AutomatedBy'', Value = ''ResourceCleanup''\<rparr>,
        \<lparr>Key = ''CreatedDate'', Value = isoformat today\<rparr>]"

definition skip_volume :: "string \<Rightarrow> string \<Rightarrow> reaper_state \<Rightarrow> reaper_state" where
  "skip_volume volume_id why s =
     s\<lparr>results := (results s)\<lparr>volumes_skipped :=
          volumes_skipped (results s) @ [\<lparr>sv_volume_id = volume_id, sv_reason = why\<rparr>]\<rparr>\<rparr>"

definition record_deleted_volume :: "deleted_volume \<Rightarrow> reaper_state \<Rightarrow> reaper_state" where
  "record_deleted_volume d s =
     s\<lparr>results := (results s)
          \<lparr>volumes_deleted := volumes_deleted (results s) @ [d],
           total_savings_monthly := fadd (total_savings_monthly (results s)) (dv_monthly_savings d)\<rparr>\<rparr>"

definition delete_the_volume ::
  "reaper_aws \<Rightarrow> bool \<Rightarrow> date \<Rightarrow> volume \<Rightarrow> double \<Rightarrow> string option \<Rightarrow> reaper_state \<Rightarrow> reaper_state" where
  "delete_the_volume aws dry_run today volume monthly_cost snapshot_id s =
     (if dry_run then
        printed (DryRunWouldDeleteVolume (VolumeId volume) (Size volume) (VolumeType volume) monthly_cost) s
      else
        (case delete_volume aws (trace s) (VolumeId volume) of
           Returned _ \<Rightarrow>
             record_deleted_volume
               \<lparr>dv_volume_id = VolumeId volume, dv_size_gb = Size volume,
                dv_volume_type = VolumeType volume, dv_monthly_savings = monthly_cost,
                dv_snapshot_id = snapshot_id, dv_deleted_date = isoformat today\<rparr>
               (printed (DeletedVolume (VolumeId volume) (Size volume) (VolumeType volume) monthly_cost)
                  (called (DeleteVolume (VolumeId volume)) True s))
         | Raised msg \<Rightarrow>
             skip_volume (VolumeId volume) (''deletion_failed: '' @ msg)
               (printed (ErrorDeletingVolume (VolumeId volume) msg)
                  (called (DeleteVolume (VolumeId volume)) False s))))"

definition process_volume ::
  "reaper_aws \<Rightarrow> bool \<Rightarrow> date \<Rightarrow> volume \<Rightarrow> reaper_state \<Rightarrow> py_error option \<times> reaper_state" where
  "process_volume aws dry_run today volume s0 =
     (let volume_id = VolumeId volume;
          s = s0\<lparr>stdout := stdout s0
                   @ map (InvalidDateFormat volume_id) (invalid_deadline_values (VolumeTags volume))\<rparr>
      in case tags_deadline (VolumeTags volume) None of
           None \<Rightarrow> (None, s)
         | Some delete_after_date \<Rightarrow>
             if date_ge today delete_after_date then
               (case volume_cost (Size volume) (VolumeType volume) of
                  Inl e \<Rightarrow> (Some e, s)
                | Inr monthly_cost \<Rightarrow>
                    if 0 < length (Attachments volume) then
                      (None, skip_volume volume_id ''attached_to_instance''
                               (printed (SkippedNowAttached volume_id) s))
                    else if \<not> dry_run then
                      (case create_snapshot aws (trace s) volume_id of
                         Returned snapshot_id \<Rightarrow>
                           (None, delete_the_volume aws dry_run today volume monthly_cost
                                    (Some snapshot_id)
                                    (printed (CreatedSafetySnapshot snapshot_id)
                                       (called (snapshot_request volume_id today) True s)))
                       | Raised msg \<Rightarrow>
                           (None, skip_volume volume_id (''snapshot_failed: '' @ msg)
                                    (printed (ErrorCreatingSnapshot volume_id msg)
                                       (called (snapshot_request volume_id today) False s))))
                    else (None, delete_the_volume aws dry_run today volume monthly_cost None s))
             else
               (None, printed (GracePeriodActive volume_id
                                 (toordinal delete_after_date - toordinal today)) s))"

fun volumes_loop ::
  "reaper_aws \<Rightarrow> bool \<Rightarrow> date \<Rightarrow> volume list \<Rightarrow> reaper_state \<Rightarrow> py_error option \<times> reaper_state" where
  "volumes_loop aws dry_run today [] s = (None, s)"
| "volumes_loop aws dry_run today (volume # rest) s =
     (case process_volume aws dry_run today volume s of
        (Some e, s') \<Rightarrow> (Some e, s')
      | (None, s') \<Rightarrow> volumes_loop aws dry_run today rest s')"

definition cleanup_expired_volumes :: "reaper_aws \<Rightarrow> bool \<Rightarrow> reaper_state \<Rightarrow> reaper_state" where
  "cleanup_expired_volumes aws dry_run s =
     (case describe_volumes aws (trace s) of
        Raised msg \<Rightarrow>
          printed (ErrorInVolumeCleanup (RemoteFailure msg)) (called DescribeVolumes False s)
      | Returned volumes \<Rightarrow>
          (case volumes_loop aws dry_run (utc_today aws VolumeScan) volumes
                  (called DescribeVolumes True s) of
             (Some e, s') \<Rightarrow> printed (ErrorInVolumeCleanup (PythonFailure e)) s'
           | (None, s') \<Rightarrow>
               printed (VolumesSummary (length (volumes_deleted (results s')))
                          (length (volumes_skipped (results s')))) s'))"

subsection \<open>\<^verbatim>\<open>cleanup_expired_snapshots\<close>\<close>

definition process_snapshot ::
  "reaper_aws \<Rightarrow> bool \<Rightarrow> date \<Rightarrow> snapshot \<Rightarrow> reaper_state \<Rightarrow> py_error option \<times> reaper_state" where
  "process_snapshot aws dry_run today snap s =
     (case tags_deadline (SnapshotTags snap) None of
        None \<Rightarrow> (None, s)
      | Some delete_after_date \<Rightarrow>
          if date_ge today delete_after_date then
            (case snapshot_cost (VolumeSize snap) of
               Inl e \<Rightarrow> (Some e, s)
             | Inr monthly_cost \<Rightarrow>
                 if dry_run then
                   (None, printed (DryRunWouldDeleteSnapshot (SnapshotId snap) (VolumeSize snap)
                                     monthly_cost) s)
                 else
                   (case delete_snapshot aws (trace s) (SnapshotId snap) of
                      Returned _ \<Rightarrow>
                        (None,
                         (printed (DeletedSnapshot (SnapshotId snap) (VolumeSize snap) monthly_cost)
                            (called (DeleteSnapshot (SnapshotId snap)) True s))
                          \<lparr>results := (results s)
                             \<lparr>snapshots_deleted := snapshots_deleted (results s)
                                @ [\<lparr>ds_snapshot_id = SnapshotId snap, ds_size_gb = VolumeSize snap,
                                    ds_monthly_savings = monthly_cost,
                                    ds_deleted_date = isoformat today\<rparr>],
                              total_savings_monthly :=
                                fadd (total_savings_monthly (results s)) monthly_cost\<rparr>\<rparr>)
                    | Raised msg \<Rightarrow>
                        (None,
                         (printed (ErrorDeletingSnapshot (SnapshotId snap) msg)
                            (called (DeleteSnapshot (SnapshotId snap)) False s))
                          \<lparr>results := (results s)
                             \<lparr>snapshots_skipped := snapshots_skipped (results s)
                                @ [\<lparr>ss_snapshot_id = SnapshotId snap, ss_reason = msg\<rparr>]\<rparr>\<rparr>)))
          else (None, s))"

fun snapshots_loop ::
  "reaper_aws \<Rightarrow> bool \<Rightarrow> date \<Rightarrow> snapshot list \<Rightarrow> reaper_state \<Rightarrow> py_error option \<times> reaper_state" where
  "snapshots_loop aws dry_run today [] s = (None, s)"
| "snapshots_loop aws dry_run today (snap # rest) s =
     (case process_snapshot aws dry_run today snap s of
        (Some e, s') \<Rightarrow> (Some e, s')
      | (None, s') \<Rightarrow> snapshots_loop aws dry_run today rest s')"

definition cleanup_expired_snapshots :: "reaper_aws \<Rightarrow> bool \<Rightarrow> reaper_state \<Rightarrow> reaper_state" where
  "cleanup_expired_snapshots aws dry_run s =
     (case describe_snapshots aws (trace s) of
        Raised msg \<Rightarrow>
          printed (ErrorInSnapshotCleanup (RemoteFailure msg)) (called DescribeSnapshots False s)
      | Returned snapshots \<Rightarrow>
          (case snapshots_loop aws dry_run (utc_today aws SnapshotScan) snapshots
                  (called DescribeSnapshots True s) of
             (Some e, s') \<Rightarrow> printed (ErrorInSnapshotCleanup (PythonFailure e)) s'
           | (None, s') \<Rightarrow>
               printed (SnapshotsSummary (length (snapshots_deleted (results s')))) s'))"

subsection \<open>\<^verbatim>\<open>cleanup_expired_eips\<close>\<close>

definition process_address ::
  "reaper_aws \<Rightarrow> bool \<Rightarrow> date \<Rightarrow> address \<Rightarrow> reaper_state \<Rightarrow> reaper_state" where
  "process_address aws dry_run today addr s =
     (case tags_deadline (AddressTags addr) None of
        None \<Rightarrow> s
      | Some delete_after_date \<Rightarrow>
          if date_ge today delete_after_date then
            if AssociationId addr \<noteq> None then
              printed (SkippedNowAssociated (AllocationId addr) (PublicIp addr)) s
            else if dry_run then
              printed (DryRunWouldReleaseEip (PublicIp addr) (AllocationId addr) eip_cost) s
            else
              (case release_address aws (trace s) (AllocationId addr) of
                 Returned _ \<Rightarrow>
                   (printed (ReleasedEip (PublicIp addr) (AllocationId addr) eip_cost)
                      (called (ReleaseAddress (AllocationId addr)) True s))
                    \<lparr>results := (results s)
                       \<lparr>eips_released := eips_released (results s)
                          @ [\<lparr>re_allocation_id = AllocationId addr, re_public_ip = PublicIp addr,
                              re_monthly_savings = eip_cost, re_released_date = isoformat today\<rparr>],
                        total_savings_monthly :=
                          fadd (total_savings_monthly (results s)) eip_cost\<rparr>\<rparr>
               | Raised msg \<Rightarrow>
                   printed (ErrorReleasingEip (AllocationId addr) msg)
                     (called (ReleaseAddress (AllocationId addr)) False s))
          else s)"

fun addresses_loop :: "reaper_aws \<Rightarrow> bool \<Rightarrow> date \<Rightarrow> address list \<Rightarrow> reaper_state \<Rightarrow> reaper_state" where
  "addresses_loop aws dry_run today [] s = s"
| "addresses_loop aws dry_run today (addr # rest) s =
     addresses_loop aws dry_run today rest (process_address aws dry_run today addr s)"

definition cleanup_expired_eips :: "reaper_aws \<Rightarrow> bool \<Rightarrow> reaper_state \<Rightarrow> reaper_state" where
  "cleanup_expired_eips aws dry_run s =
     (case describe_addresses aws (trace s) of
        Raised msg \<Rightarrow>
          printed (ErrorInEipCleanup (RemoteFailure msg)) (called DescribeAddresses False s)
      | Returned addresses \<Rightarrow>
          (let s' = addresses_loop aws dry_run (utc_today aws AddressScan) addresses
                      (called DescribeAddresses True s)
           in printed (EipsSummary (length (eips_released (results s')))) s'))"

subsection \<open>\<^verbatim>\<open>log_deletions_to_dynamodb\<close>\<close>

definition volume_item :: "deleted_volume \<Rightarrow> ledger_item" where
  "volume_item v =
     \<lparr>li_deletion_id = ''volume-'' @ dv_volume_id v @ ''-'' @ dv_deleted_date v,
      li_deleted_date = dv_deleted_date v,
      li_resource_type = ''ebs_volume'',
      li_resource_id = dv_volume_id v,
      li_size_gb = Some (dv_size_gb v),
      li_volume_type = Some (dv_volume_type v),
      li_monthly_savings = dv_monthly_savings v,
      li_snapshot_id = dv_snapshot_id v,
      li_public_ip = None\<rparr>"

definition snapshot_item :: "deleted_snapshot \<Rightarrow> ledger_item" where
  "snapshot_item sn =
     \<lparr>li_deletion_id = ''snapshot-'' @ ds_snapshot_id sn @ ''-'' @ ds_deleted_date sn,
      li_deleted_date = ds_deleted_date sn,
      li_resource_type = ''snapshot'',
      li_resource_id = ds_snapshot_id sn,
      li_size_gb = Some (ds_size_gb sn),
      li_volume_type = None,
      li_monthly_savings = ds_monthly_savings sn,
      li_snapshot_id = None,
      li_public_ip = None\<rparr>"

definition eip_item :: "released_eip \<Rightarrow> ledger_item" where
  "eip_item e =
     \<lparr>li_deletion_id = ''eip-'' @ re_allocation_id e @ ''-'' @ re_released_date e,
      li_deleted_date = re_released_date e,
      li_resource_type = ''elastic_ip'',
      li_resource_id = re_allocation_id e,
      li_size_gb = None,
      li_volume_type = None,
      li_monthly_savings = re_monthly_savings e,
      li_snapshot_id = None,
      li_public_ip = Some (re_public_ip e)\<rparr>"

fun put_items :: "reaper_aws \<Rightarrow> ledger_item list \<Rightarrow> reaper_state \<Rightarrow> string option \<times> reaper_state" where
  \<comment> \<open>one \<^verbatim>\<open>for\<close> loop of \<^verbatim>\<open>table.put_item\<close>; \<open>Some msg\<close> when a call raised\<close>
  "put_items aws [] s = (None, s)"
| "put_items aws (item # rest) s =
     (case put_item aws (trace s) item of
        Raised msg \<Rightarrow> (Some msg, called (PutItem item) False s)
      | Returned _ \<Rightarrow> put_items aws rest (called (PutItem item) True s))"

definition log_deletions_to_dynamodb :: "reaper_aws \<Rightarrow> reaper_state \<Rightarrow> reaper_state" where
  "log_deletions_to_dynamodb aws s =
     (case put_items aws (map volume_item (volumes_deleted (results s))) s of
        (Some msg, s1) \<Rightarrow> printed (ErrorLoggingToDynamoDB msg) s1
      | (None, s1) \<Rightarrow>
          (case put_items aws (map snapshot_item (snapshots_deleted (results s))) s1 of
             (Some msg, s2) \<Rightarrow> printed (ErrorLoggingToDynamoDB msg) s2
           | (None, s2) \<Rightarrow>
               (case put_items aws (map eip_item (eips_released (results s))) s2 of
                  (Some msg, s3) \<Rightarrow> printed (ErrorLoggingToDynamoDB msg) s3
                | (None, s3) \<Rightarrow>
                    printed (LoggedDeletions
                               (length (volumes_deleted (results s))
                                + length (snapshots_deleted (results s))
                                + length (eips_released (results s)))) s3)))"

subsection \<open>\<^verbatim>\<open>send_cleanup_report\<close> and the handler\<close>

definition cleanup_message :: "cleanup_results \<Rightarrow> string" where
  "cleanup_message r =
     (let total_deleted = length (volumes_deleted r) + length (snapshots_deleted r)
                            + length (eips_released r)
      in if total_deleted = 0
         then ''AWS Cleanup: No expired resources found. All tagged resources still in grace period.''
         else ''AWS Cleanup: Deleted '' @ str_nat (int total_deleted) @ '' expired resources. ''
              @ ''Savings: $'' @ format_2f (total_savings_monthly r) @ ''/mo ($''
              @ format_2f (fmul (total_savings_monthly r) (Finite 12)) @ ''/yr). ''
              @ (if volumes_deleted r \<noteq> []
                 then str_nat (int (length (volumes_deleted r))) @ '' volumes. '' else [])
              @ (if snapshots_deleted r \<noteq> []
                 then str_nat (int (length (snapshots_deleted r))) @ '' snapshots. '' else [])
              @ (if eips_released r \<noteq> []
                 then str_nat (int (length (eips_released r))) @ '' IPs. '' else [])
              @ ''Safety snapshots created. Check CloudWatch for details.'')"

definition cleanup_subject :: "cleanup_results \<Rightarrow> string" where
  "cleanup_subject r = ''Cleanup: $'' @ format_2f (total_savings_monthly r) @ ''/mo saved''"

definition send_cleanup_report :: "reaper_aws \<Rightarrow> reaper_state \<Rightarrow> reaper_state" where
  "send_cleanup_report aws s =
     (let subject = cleanup_subject (results s); message = cleanup_message (results s)
      in case publish aws (trace s) subject message of
           Returned message_id \<Rightarrow> printed (SmsSent message_id) (called (Publish subject message) True s)
         | Raised msg \<Rightarrow> printed (ErrorSendingSns msg) (called (Publish subject message) False s))"

record cleanup_response =
  statusCode :: nat
  deleted_count :: nat
  savings :: double

definition initial_state :: reaper_state where
  "initial_state =
     \<lparr>results = \<lparr>volumes_deleted = [], snapshots_deleted = [], eips_released = [],
                 volumes_skipped = [], snapshots_skipped = [],
                 total_savings_monthly = Finite 0\<rparr>,
      trace = [], stdout = []\<rparr>"

definition scan_expired :: "reaper_aws \<Rightarrow> bool \<Rightarrow> reaper_state" where
  \<comment> \<open>the three scans of \<^verbatim>\<open>lambda_handler\<close>, from the empty \<^verbatim>\<open>cleanup_results\<close>\<close>
  "scan_expired aws dry_run =
     cleanup_expired_eips aws dry_run
       (cleanup_expired_snapshots aws dry_run
          (cleanup_expired_volumes aws dry_run initial_state))"

definition run_cleanup :: "reaper_aws \<Rightarrow> bool \<Rightarrow> reaper_state" where
  \<comment> \<open>the effects of \<^verbatim>\<open>lambda_handler\<close>: the scans, then the ledger, then the report\<close>
  "run_cleanup aws dry_run =
     send_cleanup_report aws (log_deletions_to_dynamodb aws (scan_expired aws dry_run))"

definition cleanup_lambda_handler :: "reaper_aws \<Rightarrow> bool \<Rightarrow> cleanup_response" where
  "cleanup_lambda_handler aws dry_run =
     (let cleanup_results = results (run_cleanup aws dry_run)
      in \<lparr>statusCode = 200,
          deleted_count = length (volumes_deleted cleanup_results)
                          + length (snapshots_deleted cleanup_results)
                          + length (eips_released cleanup_results),
          savings = total_savings_monthly cleanup_results\<rparr>)"

subsection \<open>Reading a trace\<close>

text \<open>
  The resources a trace shows as destroyed (a delete or release call that returned), by
  kind and identifier, and the items it shows as put to the ledger, both in the order of
  the calls.
\<close>

fun destroyed_by :: "reaper_call \<times> bool \<Rightarrow> (string \<times> string) list" where
  "destroyed_by (DeleteVolume volume_id, True) = [(''ebs_volume'', volume_id)]"
| "destroyed_by (DeleteSnapshot snap_id, True) = [(''snapshot'', snap_id)]"
| "destroyed_by (ReleaseAddress allocation_id, True) = [(''elastic_ip'', allocation_id)]"
| "destroyed_by e = []"

definition destroyed :: "reaper_trace \<Rightarrow> (string \<times> string) list" where
  "destroyed tr = concat (map destroyed_by tr)"

fun put_by :: "reaper_call \<times> bool \<Rightarrow> ledger_item list" where
  "put_by (PutItem item, ok) = [item]"
| "put_by e = []"

definition ledger_puts :: "reaper_trace \<Rightarrow> ledger_item list" where
  "ledger_puts tr = concat (map put_by tr)"

fun mutating :: "reaper_call \<Rightarrow> bool" where
  \<comment> \<open>the calls that change a resource or the ledger\<close>
  "mutating DescribeVolumes = False"
| "mutating DescribeSnapshots = False"
| "mutating DescribeAddresses = False"
| "mutating (Publish subject message) = False"
| "mutating c = True"

definition expired :: "date \<Rightarrow> tag list \<Rightarrow> bool" where
  \<comment> \<open>the tags carry a deadline that parses and today has reached it\<close>
  "expired today ts =
     (case tags_deadline ts None of None \<Rightarrow> False | Some delete_after_date \<Rightarrow> date_ge today delete_after_date)"

definition accounted :: "reaper_aws \<Rightarrow> reaper_state \<Rightarrow> bool" where
  \<comment> \<open>the result lists are the destroyed resources of the trace, dated by their scans,
      and nothing has been put to the ledger\<close>
  "accounted aws s =
     (destroyed (trace s) =
        map (\<lambda>d. (''ebs_volume'', dv_volume_id d)) (volumes_deleted (results s))
        @ map (\<lambda>d. (''snapshot'', ds_snapshot_id d)) (snapshots_deleted (results s))
        @ map (\<lambda>d. (''elastic_ip'', re_allocation_id d)) (eips_released (results s))
      \<and> list_all (\<lambda>d. dv_deleted_date d = isoformat (utc_today aws VolumeScan))
           (volumes_deleted (results s))
      \<and> list_all (\<lambda>d. ds_deleted_date d = isoformat (utc_today aws SnapshotScan))
           (snapshots_deleted (results s))
      \<and> list_all (\<lambda>d. re_released_date d = isoformat (utc_today aws AddressScan))
           (eips_released (results s))
      \<and> ledger_puts (trace s) = [])"

definition guarded :: "reaper_trace \<Rightarrow> bool" where
  \<comment> \<open>every volume-delete call comes directly after a safety snapshot of the same
      volume that returned\<close>
  "guarded tr =
     (\<forall>i volume_id ok. i < length tr \<and> tr ! i = (DeleteVolume volume_id, ok) \<longrightarrow>
        0 < i \<and> (\<exists>description tags. tr ! (i - 1) = (CreateSnapshot volume_id description tags, True)))"

fun delete_volume_call :: "reaper_call \<times> bool \<Rightarrow> string list" where
  \<comment> \<open>the volume of a volume-delete call, whether the call returned or raised\<close>
  "delete_volume_call (DeleteVolume volume_id, ok) = [volume_id]"
| "delete_volume_call e = []"

definition volume_deletions :: "reaper_trace \<Rightarrow> string list" where
  "volume_deletions tr = concat (map delete_volume_call tr)"

subsection \<open>A small account, for the concrete instances\<close>

text \<open>
  Three tagged resources whose deadline 2025-01-01 has passed on 2025-02-01: an
  unattached volume, a volume that is attached again, and an address that is
  associated again. In \<open>example_aws\<close> every call returns; in \<open>failing_aws\<close> the
  safety snapshot raises.
\<close>

definition expired_tags :: "tag list" where
  "expired_tags = [\<lparr>Key = ''CostOptimization'', Value = ''DeleteAfter-2025-01-01''\<rparr>]"

definition example_today :: date where
  "example_today = \<lparr>year = 2025, month = 2, day = 1\<rparr>"

definition idle_volume :: volume where
  "idle_volume =
     \<lparr>VolumeId = ''vol-1'', Size = 8, VolumeType = ''gp2'', Attachments = [],
      AvailabilityZone = ''ap-south-1a'', CreateTime = 0, VolumeTags = expired_tags\<rparr>"

definition attached_volume :: volume where
  "attached_volume =
     \<lparr>VolumeId = ''vol-2'', Size = 8, VolumeType = ''gp3'', Attachments = [''i-1''],
      AvailabilityZone = ''ap-south-1a'', CreateTime = 0, VolumeTags = expired_tags\<rparr>"

definition associated_address :: address where
  "associated_address =
     \<lparr>AllocationId = ''eipalloc-1'', PublicIp = ''203.0.113.7'',
      AssociationId = Some ''eipassoc-1'', AddressTags = expired_tags\<rparr>"

definition example_aws :: reaper_aws where
  "example_aws =
     \<lparr>describe_volumes = (\<lambda>h. Returned [idle_volume, attached_volume]),
      describe_snapshots = (\<lambda>h. Returned []),
      describe_addresses = (\<lambda>h. Returned [associated_address]),
      create_snapshot = (\<lambda>h volume_id. Returned ''snap-1''),
      delete_volume = (\<lambda>h volume_id. Returned ()),
      delete_snapshot = (\<lambda>h snap_id. Returned ()),
      release_address = (\<lambda>h allocation_id. Returned ()),
      put_item = (\<lambda>h item. Returned ()),
      publish = (\<lambda>h subject message. Returned ''msg-1''),
      utc_today = (\<lambda>k. example_today)\<rparr>"

definition failing_aws :: reaper_aws where
  "failing_aws = example_aws\<lparr>create_snapshot := (\<lambda>h volume_id. Raised ''limit exceeded'')\<rparr>"

definition fits_float :: "int \<Rightarrow> bool" where
  \<comment> \<open>the integer converts to a float without \<^verbatim>\<open>OverflowError\<close>\<close>
  "fits_float n = (case float_of_int n of Inl e \<Rightarrow> False | Inr x \<Rightarrow> True)"

definition same_deletions :: "reaper_state \<Rightarrow> reaper_state \<Rightarrow> bool" where
  \<comment> \<open>the second state records the same deletions and savings as the first\<close>
  "same_deletions s s' =
     (volumes_deleted (results s') = volumes_deleted (results s)
      \<and> snapshots_deleted (results s') = snapshots_deleted (results s)
      \<and> eips_released (results s') = eips_released (results s)
      \<and> total_savings_monthly (results s') = total_savings_monthly (results s))"

section \<open>The Finder (\<^verbatim>\<open>cost_analyzer.py\<close>)\<close>

subsection \<open>Resources, findings and the remote services\<close>


definition SNAPSHOT_AGE_THRESHOLD_DAYS :: int where
  "SNAPSHOT_AGE_THRESHOLD_DAYS = 90"

text \<open>
  A stopped instance as \<^verbatim>\<open>describe_instances\<close> gives it. A block device mapping is
  reduced to the volume of its \<^verbatim>\<open>Ebs\<close> entry, \<open>None\<close> when it has none.
\<close>

record ec2_instance =
  InstanceId :: string
  InstanceType :: string
  BlockDeviceMappings :: "string option list"
  StateTransitionReason :: "string option"
  InstanceTags :: "tag list"

text \<open>
  The findings. \<open>uv_create_time\<close> and \<open>os_start_time\<close> hold the instant whose
  \<^verbatim>\<open>isoformat()\<close> text the source stores.
\<close>

record unattached_volume =
  uv_resource_type :: string
  uv_resource_id :: string
  uv_volume_id :: string
  uv_size_gb :: int
  uv_volume_type :: string
  uv_monthly_cost :: double
  uv_create_time :: int
  uv_availability_zone :: string
  uv_tags :: "tag list"



record old_snapshot =
  os_resource_type :: string
  os_resource_id :: string
  os_snapshot_id :: string
  os_size_gb :: int
  os_monthly_cost :: double
  os_age_days :: int
  os_start_time :: int
  os_description :: string
  os_tags :: "tag list"



datatype finder_call =
    ListVolumes
  | ListStoppedInstances
  | LookupVolume string
  | ListSnapshots
  | ListAddresses
  | CreateTags "string list" "tag list"
  | PublishAlert string string

type_synonym finder_trace = "(finder_call \<times> bool) list"

text \<open>
  The services as a Finder run meets them. \<open>stopped_instances\<close> answers with the
  instances of each reservation. Instants are microseconds since the epoch; \<open>utc_now k\<close>
  is the \<open>k\<close>-th reading of \<^verbatim>\<open>datetime.now(timezone.utc)\<close> that \<^verbatim>\<open>find_old_snapshots\<close>
  takes, \<open>local_today k\<close> the calendar date of the \<open>k\<close>-th reading of \<^verbatim>\<open>datetime.now()\<close>
  that \<^verbatim>\<open>tag_resources_for_deletion\<close> takes.
\<close>

record finder_aws =
  all_volumes :: "finder_trace \<Rightarrow> volume list outcome"
  stopped_instances :: "finder_trace \<Rightarrow> ec2_instance list list outcome"
  volume_by_id :: "finder_trace \<Rightarrow> string \<Rightarrow> volume list outcome"
  own_snapshots :: "finder_trace \<Rightarrow> snapshot list outcome"
  all_addresses :: "finder_trace \<Rightarrow> address list outcome"
  create_tags :: "finder_trace \<Rightarrow> string list \<Rightarrow> tag list \<Rightarrow> unit outcome"
  publish_alert :: "finder_trace \<Rightarrow> string \<Rightarrow> string \<Rightarrow> string outcome"
  utc_now :: "nat \<Rightarrow> int"
  local_today :: "nat \<Rightarrow> date"

subsection \<open>\<^verbatim>\<open>find_unattached_volumes\<close>\<close>

text \<open>
  Each finder catches every exception of its body and then returns the empty list; the
  loops return the exception or the list built.
\<close>

definition unattached_finding :: "volume \<Rightarrow> double \<Rightarrow> unattached_volume" where
  "unattached_finding vol monthly_cost =
     \<lparr>uv_resource_type = ''ebs_volume'', uv_resource_id = VolumeId vol, uv_volume_id = VolumeId vol,
      uv_size_gb = Size vol, uv_volume_type = VolumeType vol,
      uv_monthly_cost = py_round monthly_cost 2, uv_create_time = CreateTime vol,
      uv_availability_zone = AvailabilityZone vol, uv_tags = VolumeTags vol\<rparr>"

fun unattached_loop :: "volume list \<Rightarrow> unattached_volume list \<Rightarrow> py_error + unattached_volume list" where
  "unattached_loop [] unattached = Inr unattached"
| "unattached_loop (vol # rest) unattached =
     (if length (Attachments vol) = 0 then
        (case volume_cost (Size vol) (VolumeType vol) of
           Inl e \<Rightarrow> Inl e
         | Inr monthly_cost \<Rightarrow>
             unattached_loop rest (unattached @ [unattached_finding vol monthly_cost]))
      else unattached_loop rest unattached)"

definition find_unattached_volumes ::
  "finder_aws \<Rightarrow> finder_trace \<Rightarrow> unattached_volume list \<times> finder_trace" where
  "find_unattached_volumes aws tr =
     (case all_volumes aws tr of
        Raised msg \<Rightarrow> ([], tr @ [(ListVolumes, False)])
      | Returned volumes \<Rightarrow>
          (case unattached_loop volumes [] of Inl e \<Rightarrow> [] | Inr unattached \<Rightarrow> unattached,
           tr @ [(ListVolumes, True)]))"

subsection \<open>\<^verbatim>\<open>find_stopped_instances_with_volumes\<close>\<close>






subsection \<open>\<^verbatim>\<open>find_old_snapshots\<close>\<close>

definition microseconds_per_day :: int where
  "microseconds_per_day = 86400000000"

fun old_snapshots_loop ::
  "finder_aws \<Rightarrow> int \<Rightarrow> snapshot list \<Rightarrow> nat \<Rightarrow> old_snapshot list \<Rightarrow> py_error + old_snapshot list" where
  \<comment> \<open>the third argument but one counts the clock readings taken so far\<close>
  "old_snapshots_loop aws threshold_date [] reads found = Inr found"
| "old_snapshots_loop aws threshold_date (snap # rest) reads found =
     (if StartTime snap < threshold_date then
        (case snapshot_cost (VolumeSize snap) of
           Inl e \<Rightarrow> Inl e
         | Inr monthly_cost \<Rightarrow>
             old_snapshots_loop aws threshold_date rest (Suc reads)
               (found
                @ [\<lparr>os_resource_type = ''snapshot'', os_resource_id = SnapshotId snap,
                    os_snapshot_id = SnapshotId snap, os_size_gb = VolumeSize snap,
                    os_monthly_cost = py_round monthly_cost 2,
                    os_age_days = (utc_now aws reads - StartTime snap) div microseconds_per_day,
                    os_start_time = StartTime snap,
                    os_description =
                      (case Description snap of None \<Rightarrow> ''No description'' | Some text \<Rightarrow> text),
                    os_tags = SnapshotTags snap\<rparr>]))
      else old_snapshots_loop aws threshold_date rest reads found)"

definition find_old_snapshots :: "finder_aws \<Rightarrow> finder_trace \<Rightarrow> old_snapshot list \<times> finder_trace" where
  "find_old_snapshots aws tr =
     (case own_snapshots aws tr of
        Raised msg \<Rightarrow> ([], tr @ [(ListSnapshots, False)])
      | Returned snapshots \<Rightarrow>
          (case old_snapshots_loop aws
                  (utc_now aws 0 - SNAPSHOT_AGE_THRESHOLD_DAYS * microseconds_per_day)
                  snapshots 1 [] of
             Inl e \<Rightarrow> []
           | Inr found \<Rightarrow> found,
           tr @ [(ListSnapshots, True)]))"

subsection \<open>\<^verbatim>\<open>find_idle_elastic_ips\<close>\<close>



subsection \<open>\<^verbatim>\<open>tag_resources_for_deletion\<close>\<close>




subsection \<open>\<^verbatim>\<open>send_cost_report\<close> and the handler\<close>







subsection \<open>Reading a Finder trace\<close>

fun deadline_written :: "finder_call \<times> bool \<Rightarrow> (string list \<times> string list) list" where
  \<comment> \<open>for a create-tags call: its resources, and the values it gives the deadline tag\<close>
  "deadline_written (CreateTags resources tags, ok) =
     [(resources, map Value (filter (\<lambda>t. Key t = TAG_KEY) tags))]"
| "deadline_written e = []"

definition tag_writes :: "finder_trace \<Rightarrow> (string list \<times> string list) list" where
  "tag_writes tr = concat (map deadline_written tr)"

subsection \<open>A small account for the Finder\<close>

text \<open>
  Two volumes (an unattached 5 GB \<^verbatim>\<open>gp3\<close> one, and \<open>attached_volume\<close>, which belongs to a
  stopped instance), two snapshots (one a microsecond older than 90 days at the first
  clock reading, one exactly 90 days old), and two addresses (one idle, one associated).
  The UTC clock starts at day 20000 after the epoch and advances a microsecond with each
  reading; the local date is 2025-12-28.
\<close>

definition small_volume :: volume where
  "small_volume =
     \<lparr>VolumeId = ''vol-5'', Size = 5, VolumeType = ''gp3'', Attachments = [],
      AvailabilityZone = ''ap-south-1a'', CreateTime = 0, VolumeTags = []\<rparr>"

definition stopped_example :: ec2_instance where
  "stopped_example =
     \<lparr>InstanceId = ''i-1'', InstanceType = ''t3.micro'', BlockDeviceMappings = [Some ''vol-2''],
      StateTransitionReason = Some ''User initiated'', InstanceTags = []\<rparr>"

definition old_snap :: snapshot where
  "old_snap =
     \<lparr>SnapshotId = ''snap-old'', VolumeSize = 8, StartTime = 20000 * 86400000000 - 90 * 86400000000 - 1,
      Description = None, SnapshotTags = []\<rparr>"

definition boundary_snap :: snapshot where
  "boundary_snap =
     \<lparr>SnapshotId = ''snap-90'', VolumeSize = 8, StartTime = 20000 * 86400000000 - 90 * 86400000000,
      Description = None, SnapshotTags = []\<rparr>"

definition idle_address :: address where
  "idle_address =
     \<lparr>AllocationId = ''eipalloc-2'', PublicIp = ''203.0.113.8'', AssociationId = None,
      AddressTags = []\<rparr>"

definition example_finder_aws :: finder_aws where
  "example_finder_aws =
     \<lparr>all_volumes = (\<lambda>h. Returned [small_volume, attached_volume]),
      stopped_instances = (\<lambda>h. Returned [[stopped_example]]),
      volume_by_id = (\<lambda>h volume_id. Returned [attached_volume]),
      own_snapshots = (\<lambda>h. Returned [old_snap, boundary_snap]),
      all_addresses = (\<lambda>h. Returned [idle_address, associated_address]),
      create_tags = (\<lambda>h resources tags. Returned ()),
      publish_alert = (\<lambda>h subject message. Returned ''msg-2''),
      utc_now = (\<lambda>k. 20000 * 86400000000 + int k),
      local_today = (\<lambda>k. \<lparr>year = 2025, month = 12, day = 28\<rparr>)\<rparr>"

section \<open>Properties of the float model\<close>

text \<open>
  \<open>ilog2\<close> is the binary exponent, so that a rounding can be checked from its bounds:
  \<open>rnd_eqI\<close> reduces \<open>rnd x = Finite y\<close> to comparisons of numerals.
\<close>

lemma round_half_even_0 [simp]: "round_half_even 0 = 0"
  by (simp add: round_half_even_def)

lemma rnd_0 [simp]: "rnd 0 = Finite 0"
  by (simp add: rnd_def)

lemma pow2_powi: "pow2 e = 2 powi e"
  by (simp add: pow2_def power_int_def inverse_eq_divide power_one_over)

lemma pow2_pos [simp]: "0 < pow2 e"
  by (simp add: pow2_powi)

lemma pow2_strict_mono: "a < b \<Longrightarrow> pow2 a < pow2 b"
  by (simp add: pow2_powi power_int_strict_increasing)

lemma pow2_mono: "a \<le> b \<Longrightarrow> pow2 a \<le> pow2 b"
  by (simp add: pow2_powi power_int_increasing)

lemma pow2_add: "pow2 (a + b) = pow2 a * pow2 b"
  by (simp add: pow2_powi power_int_add)

lemma pow2_nat: "0 \<le> e \<Longrightarrow> pow2 e = 2 ^ nat e"
  by (simp add: pow2_def)

lemma bit_length_bounds:
  "0 < n \<Longrightarrow> 0 < bit_length n \<and> 2 ^ nat (bit_length n - 1) \<le> n \<and> n < 2 ^ nat (bit_length n)"
proof (induction n rule: bit_length.induct)
  case (1 n)
  show ?case
  proof (cases "n div 2 = 0")
    case True
    with "1.prems" have "n = 1" by presburger
    then show ?thesis by (simp add: bit_length.simps)
  next
    case False
    with "1.prems" have pos: "0 < n div 2" by presburger
    let ?b = "bit_length (n div 2)"
    from "1.IH" pos "1.prems" have ih: "0 < ?b" "2 ^ nat (?b - 1) \<le> n div 2" "n div 2 < 2 ^ nat ?b"
      by auto
    have bl: "bit_length n = 1 + ?b"
      using "1.prems" by (subst bit_length.simps) simp
    have n1: "nat ?b = Suc (nat (?b - 1))" using ih(1) by simp
    have e1: "(2::int) ^ nat ?b = 2 * 2 ^ nat (?b - 1)"
      by (subst n1) simp
    have e2: "(2::int) ^ nat (1 + ?b) = 2 * 2 ^ nat ?b"
      using ih(1) by (simp add: nat_add_distrib)
    have lo: "\<And>X. X \<le> n div 2 \<Longrightarrow> 2 * X \<le> n" by linarith
    have hi: "\<And>Y. n div 2 < Y \<Longrightarrow> n < 2 * Y" by linarith
    have "2 ^ nat ?b \<le> n" using lo [OF ih(2)] e1 by simp
    moreover have "n < 2 ^ nat (1 + ?b)" using hi [OF ih(3)] e2 by simp
    ultimately show ?thesis using ih(1) bl by simp
  qed
qed


lemma bit_length_bounds_rat:
  assumes "0 < n"
  shows "pow2 (bit_length n - 1) \<le> of_int n" and "of_int n < pow2 (bit_length n)"
proof -
  from bit_length_bounds [OF assms]
  have b: "0 < bit_length n" "2 ^ nat (bit_length n - 1) \<le> n" "n < 2 ^ nat (bit_length n)"
    by auto
  have "(of_int (2 ^ nat (bit_length n - 1)) :: rat) \<le> of_int n"
    using b(2) by (simp only: of_int_le_iff)
  then show "pow2 (bit_length n - 1) \<le> of_int n"
    using b(1) by (simp add: pow2_nat)
  have "(of_int n :: rat) < of_int (2 ^ nat (bit_length n))"
    using b(3) by (simp only: of_int_less_iff)
  then show "of_int n < pow2 (bit_length n)"
    using b(1) by (simp add: pow2_nat)
qed

lemma ilog2_bounds:
  assumes "x \<noteq> 0"
  shows "pow2 (ilog2 x) \<le> \<bar>x\<bar> \<and> \<bar>x\<bar> < pow2 (ilog2 x + 1)"
proof -
  obtain p q where pq: "quotient_of \<bar>x\<bar> = (p, q)" by force
  have q: "0 < q" using quotient_of_denom_pos [OF pq] .
  have x: "\<bar>x\<bar> = of_int p / of_int q" using quotient_of_div [OF pq] .
  have "0 < \<bar>x\<bar>" using assms by simp
  with x q have p: "0 < p" by (simp add: zero_less_divide_iff)
  let ?P = "bit_length p" and ?Q = "bit_length q"
  note bp = bit_length_bounds_rat [OF p] and bq = bit_length_bounds_rat [OF q]
  have qr: "(0::rat) < of_int q" using q by simp
  have "of_int p < pow2 ?P" by (rule bp(2))
  also have "pow2 ?P = pow2 (?P - ?Q + 1) * pow2 (?Q - 1)"
    by (simp add: pow2_add [symmetric])
  also have "\<dots> \<le> pow2 (?P - ?Q + 1) * of_int q"
    using bq(1) by (simp add: mult_left_mono)
  finally have up: "\<bar>x\<bar> < pow2 (?P - ?Q + 1)"
    using qr by (simp add: x pos_divide_less_eq)
  have "pow2 (?P - ?Q - 1) * of_int q < pow2 (?P - ?Q - 1) * pow2 ?Q"
    using bq(2) by (simp add: mult_strict_left_mono)
  also have "\<dots> = pow2 (?P - 1)"
    by (simp add: pow2_add [symmetric])
  also have "\<dots> \<le> of_int p" by (rule bp(1))
  finally have lo: "pow2 (?P - ?Q - 1) < \<bar>x\<bar>"
    using qr by (simp add: x pos_less_divide_eq)
  show ?thesis
  proof (cases "pow2 (?P - ?Q) \<le> \<bar>x\<bar>")
    case True
    then have "ilog2 x = ?P - ?Q" by (simp add: ilog2_def pq)
    with True up show ?thesis by simp
  next
    case False
    then have "ilog2 x = ?P - ?Q - 1" by (simp add: ilog2_def pq)
    with False lo show ?thesis by simp
  qed
qed

lemma ilog2_eq:
  assumes "pow2 e \<le> \<bar>x\<bar>" and "\<bar>x\<bar> < pow2 (e + 1)"
  shows "ilog2 x = e"
proof -
  have "0 < \<bar>x\<bar>" using assms(1) pow2_pos [of e] by linarith
  then have "x \<noteq> 0" by simp
  from ilog2_bounds [OF this]
  have b: "pow2 (ilog2 x) \<le> \<bar>x\<bar>" "\<bar>x\<bar> < pow2 (ilog2 x + 1)" by auto
  have "\<not> e + 1 \<le> ilog2 x"
  proof
    assume "e + 1 \<le> ilog2 x"
    then have "pow2 (e + 1) \<le> pow2 (ilog2 x)" by (rule pow2_mono)
    with b(1) assms(2) show False by linarith
  qed
  moreover have "\<not> ilog2 x + 1 \<le> e"
  proof
    assume "ilog2 x + 1 \<le> e"
    then have "pow2 (ilog2 x + 1) \<le> pow2 e" by (rule pow2_mono)
    with b(2) assms(1) show False by linarith
  qed
  ultimately show ?thesis by linarith
qed

lemma round_half_even_eqI:
  assumes "\<bar>x - of_int m\<bar> < 1 / 2"
  shows "round_half_even x = m"
proof (cases "of_int m \<le> x")
  case True
  with assms have "\<lfloor>x\<rfloor> = m" by (intro floor_unique) linarith+
  with assms True show ?thesis by (simp add: round_half_even_def Let_def)
next
  case False
  with assms have "\<lfloor>x\<rfloor> = m - 1" by (intro floor_unique) (simp, linarith)+
  with assms False show ?thesis
    by (simp add: round_half_even_def Let_def)
qed

lemma round_half_even_tie_down:
  assumes "x = of_int m + 1 / 2" and "even m"
  shows "round_half_even x = m"
proof -
  have "\<lfloor>x\<rfloor> = m" using assms(1) by (intro floor_unique) simp_all
  with assms show ?thesis by (simp add: round_half_even_def Let_def)
qed

lemma round_half_even_tie_up:
  assumes "x = of_int m - 1 / 2" and "even m"
  shows "round_half_even x = m"
proof -
  have "\<lfloor>x\<rfloor> = m - 1" using assms(1) by (intro floor_unique) simp_all
  with assms show ?thesis by (simp add: round_half_even_def Let_def)
qed

lemma rnd_eqI:
  assumes "pow2 e \<le> \<bar>x\<bar>" and "\<bar>x\<bar> < pow2 (e + 1)" and "- 1022 \<le> e"
    and "round_half_even (x / pow2 (e - 52)) = m"
    and "\<bar>of_int m * pow2 (e - 52)\<bar> < pow2 1024"
  shows "rnd x = Finite (of_int m * pow2 (e - 52))"
proof -
  have "0 < \<bar>x\<bar>" using assms(1) pow2_pos [of e] by linarith
  then have "x \<noteq> 0" by simp
  moreover have "ilog2 x = e" using assms(1,2) by (rule ilog2_eq)
  moreover have "max e (- 1022) = e" using assms(3) by simp
  ultimately show ?thesis using assms(4,5) by (simp add: rnd_def Let_def)
qed

lemma round_half_even_of_int [simp]: "round_half_even (of_int k) = k"
  by (simp add: round_half_even_def)

lemma rnd_of_int_small:
  assumes "0 < n" and "n < 2 ^ 53"
  shows "rnd (of_int n) = Finite (of_int n)"
proof -
  define e where "e = bit_length n - 1"
  from bit_length_bounds [OF assms(1)]
  have bl: "0 < bit_length n" "2 ^ nat e \<le> n" by (auto simp: e_def)
  from bl(2) assms(2) have "(2::int) ^ nat e < 2 ^ 53" by linarith
  then have "nat e < 53" by (simp only: power_strict_increasing_iff)
  with bl(1) have e: "0 \<le> e" "e \<le> 52" by (simp_all add: e_def)
  define k where "k = nat (52 - e)"
  have q: "pow2 (e - 52) = 1 / 2 ^ k"
    using e by (auto simp: pow2_def k_def)
  have lo: "pow2 e \<le> \<bar>rat_of_int n\<bar>"
    using bit_length_bounds_rat(1) [OF assms(1)] assms(1) by (simp add: e_def)
  have hi: "\<bar>rat_of_int n\<bar> < pow2 (e + 1)"
    using bit_length_bounds_rat(2) [OF assms(1)] assms(1) by (simp add: e_def)
  have "rat_of_int n / pow2 (e - 52) = of_int (n * 2 ^ k)"
    unfolding q by simp
  then have r: "round_half_even (rat_of_int n / pow2 (e - 52)) = n * 2 ^ k"
    by (simp only: round_half_even_of_int)
  have y: "of_int (n * 2 ^ k) * pow2 (e - 52) = rat_of_int n"
    unfolding q by simp
  have "rat_of_int n < of_int (2 ^ 53)"
    using assms(2) by (simp only: of_int_less_iff)
  also have "(of_int (2 ^ 53) :: rat) \<le> pow2 1024"
    by (simp add: pow2_def)
  finally have "\<bar>rat_of_int n\<bar> < pow2 1024"
    using assms(1) by simp
  then have "\<bar>of_int (n * 2 ^ k) * pow2 (e - 52)\<bar> < pow2 1024"
    by (simp only: y)
  moreover have "- 1022 \<le> e" using e by simp
  ultimately have "rnd (of_int n) = Finite (of_int (n * 2 ^ k) * pow2 (e - 52))"
    using lo hi r by (intro rnd_eqI)
  then show ?thesis by (simp only: y)
qed

lemma float_of_int_small:
  assumes "0 \<le> n" and "n < 2 ^ 53"
  shows "float_of_int n = Inr (Finite (of_int n))"
proof (cases "n = 0")
  case True
  then show ?thesis by (simp add: float_of_int_def)
next
  case False
  with assms have "0 < n" by simp
  from rnd_of_int_small [OF this assms(2)] show ?thesis
    by (simp add: float_of_int_def)
qed

lemma float_of_int_8: "float_of_int 8 = Inr (Finite 8)"
  using float_of_int_small [of 8] by simp


section \<open>The Reaper: results, trace and ledger agree\<close>

subsection \<open>State updates\<close>

lemma called_simps [simp]:
  "trace (called c ok s) = trace s @ [(c, ok)]"
  "results (called c ok s) = results s"
  "stdout (called c ok s) = stdout s"
  by (simp_all add: called_def)

lemma printed_simps [simp]:
  "trace (printed l s) = trace s"
  "results (printed l s) = results s"
  "stdout (printed l s) = stdout s @ [l]"
  by (simp_all add: printed_def)

lemma skip_volume_simps [simp]:
  "trace (skip_volume v why s) = trace s"
  "stdout (skip_volume v why s) = stdout s"
  "volumes_skipped (results (skip_volume v why s)) =
     volumes_skipped (results s) @ [\<lparr>sv_volume_id = v, sv_reason = why\<rparr>]"
  "volumes_deleted (results (skip_volume v why s)) = volumes_deleted (results s)"
  "snapshots_deleted (results (skip_volume v why s)) = snapshots_deleted (results s)"
  "eips_released (results (skip_volume v why s)) = eips_released (results s)"
  "snapshots_skipped (results (skip_volume v why s)) = snapshots_skipped (results s)"
  "total_savings_monthly (results (skip_volume v why s)) = total_savings_monthly (results s)"
  by (simp_all add: skip_volume_def)

lemma record_deleted_volume_simps [simp]:
  "trace (record_deleted_volume d s) = trace s"
  "stdout (record_deleted_volume d s) = stdout s"
  "volumes_deleted (results (record_deleted_volume d s)) = volumes_deleted (results s) @ [d]"
  "volumes_skipped (results (record_deleted_volume d s)) = volumes_skipped (results s)"
  "snapshots_deleted (results (record_deleted_volume d s)) = snapshots_deleted (results s)"
  "eips_released (results (record_deleted_volume d s)) = eips_released (results s)"
  "snapshots_skipped (results (record_deleted_volume d s)) = snapshots_skipped (results s)"
  "total_savings_monthly (results (record_deleted_volume d s)) =
     fadd (total_savings_monthly (results s)) (dv_monthly_savings d)"
  by (simp_all add: record_deleted_volume_def)

lemma destroyed_append [simp]: "destroyed (xs @ ys) = destroyed xs @ destroyed ys"
  by (simp add: destroyed_def)

lemma destroyed_Nil [simp]: "destroyed [] = []"
  by (simp add: destroyed_def)

lemma destroyed_Cons [simp]: "destroyed (e # es) = destroyed_by e @ destroyed es"
  by (simp add: destroyed_def)

lemma ledger_puts_append [simp]: "ledger_puts (xs @ ys) = ledger_puts xs @ ledger_puts ys"
  by (simp add: ledger_puts_def)

lemma ledger_puts_Nil [simp]: "ledger_puts [] = []"
  by (simp add: ledger_puts_def)

lemma ledger_puts_Cons [simp]: "ledger_puts (e # es) = put_by e @ ledger_puts es"
  by (simp add: ledger_puts_def)

lemma snapshot_request_simps [simp]:
  "destroyed_by (snapshot_request v today, ok) = []"
  "put_by (snapshot_request v today, ok) = []"
  by (simp_all add: snapshot_request_def)

subsection \<open>One volume\<close>

lemma process_volume_accounted:
  assumes "process_volume aws dry_run (utc_today aws VolumeScan) v s = (r, s')"
    and "accounted aws s" and "snapshots_deleted (results s) = []" and "eips_released (results s) = []"
  shows "accounted aws s' \<and> snapshots_deleted (results s') = [] \<and> eips_released (results s') = []"
  using assms
  by (auto simp: process_volume_def delete_the_volume_def accounted_def Let_def
      split: option.splits sum.splits outcome.splits if_splits)


lemma volumes_loop_accounted:
  assumes "volumes_loop aws dry_run (utc_today aws VolumeScan) vs s = (r, s')"
    and "accounted aws s" and "snapshots_deleted (results s) = []" and "eips_released (results s) = []"
  shows "accounted aws s' \<and> snapshots_deleted (results s') = [] \<and> eips_released (results s') = []"
  using assms
proof (induction vs arbitrary: s)
  case Nil
  then show ?case by simp
next
  case (Cons v vs)
  obtain r1 s1 where step: "process_volume aws dry_run (utc_today aws VolumeScan) v s = (r1, s1)"
    by force
  from process_volume_accounted [OF step Cons.prems(2,3,4)]
  have inv: "accounted aws s1" "snapshots_deleted (results s1) = []" "eips_released (results s1) = []"
    by auto
  show ?case
  proof (cases r1)
    case None
    with Cons.prems(1) step have "volumes_loop aws dry_run (utc_today aws VolumeScan) vs s1 = (r, s')"
      by simp
    from Cons.IH [OF this inv] show ?thesis .
  next
    case (Some e)
    with Cons.prems(1) step have "s' = s1" by simp
    with inv show ?thesis by simp
  qed
qed

lemma accounted_called:
  "destroyed_by (c, ok) = [] \<Longrightarrow> put_by (c, ok) = [] \<Longrightarrow> accounted aws s \<Longrightarrow> accounted aws (called c ok s)"
  by (simp add: accounted_def)

lemma accounted_printed [simp]: "accounted aws (printed l s) = accounted aws s"
  by (simp add: accounted_def)

lemma cleanup_expired_volumes_accounted:
  assumes "accounted aws s" and "snapshots_deleted (results s) = []" and "eips_released (results s) = []"
  shows "accounted aws (cleanup_expired_volumes aws dry_run s)
         \<and> snapshots_deleted (results (cleanup_expired_volumes aws dry_run s)) = []
         \<and> eips_released (results (cleanup_expired_volumes aws dry_run s)) = []"
proof (cases "describe_volumes aws (trace s)")
  case (Raised msg)
  with assms show ?thesis
    by (simp add: cleanup_expired_volumes_def accounted_called)
next
  case (Returned vs)
  obtain r s' where loop: "volumes_loop aws dry_run (utc_today aws VolumeScan) vs
                             (called DescribeVolumes True s) = (r, s')"
    by force
  have "accounted aws (called DescribeVolumes True s)"
    using assms(1) by (simp add: accounted_called)
  from volumes_loop_accounted [OF loop this] assms(2,3)
  have "accounted aws s' \<and> snapshots_deleted (results s') = [] \<and> eips_released (results s') = []"
    by simp
  with Returned loop show ?thesis
    by (cases r) (simp_all add: cleanup_expired_volumes_def)
qed

subsection \<open>One snapshot, one address\<close>

lemma process_snapshot_accounted:
  assumes "process_snapshot aws dry_run (utc_today aws SnapshotScan) sn s = (r, s')"
    and "accounted aws s" and "eips_released (results s) = []"
  shows "accounted aws s' \<and> eips_released (results s') = []"
  using assms
  by (auto simp: process_snapshot_def accounted_def Let_def
      split: option.splits sum.splits outcome.splits if_splits)

lemma snapshots_loop_accounted:
  assumes "snapshots_loop aws dry_run (utc_today aws SnapshotScan) sns s = (r, s')"
    and "accounted aws s" and "eips_released (results s) = []"
  shows "accounted aws s' \<and> eips_released (results s') = []"
  using assms
proof (induction sns arbitrary: s)
  case Nil
  then show ?case by simp
next
  case (Cons sn sns)
  obtain r1 s1 where step: "process_snapshot aws dry_run (utc_today aws SnapshotScan) sn s = (r1, s1)"
    by force
  from process_snapshot_accounted [OF step Cons.prems(2,3)]
  have inv: "accounted aws s1" "eips_released (results s1) = []"
    by auto
  show ?case
  proof (cases r1)
    case None
    with Cons.prems(1) step have "snapshots_loop aws dry_run (utc_today aws SnapshotScan) sns s1 = (r, s')"
      by simp
    from Cons.IH [OF this inv] show ?thesis .
  next
    case (Some e)
    with Cons.prems(1) step have "s' = s1" by simp
    with inv show ?thesis by simp
  qed
qed

lemma cleanup_expired_snapshots_accounted:
  assumes "accounted aws s" and "eips_released (results s) = []"
  shows "accounted aws (cleanup_expired_snapshots aws dry_run s)
         \<and> eips_released (results (cleanup_expired_snapshots aws dry_run s)) = []"
proof (cases "describe_snapshots aws (trace s)")
  case (Raised msg)
  with assms show ?thesis
    by (simp add: cleanup_expired_snapshots_def accounted_called)
next
  case (Returned sns)
  obtain r s' where loop: "snapshots_loop aws dry_run (utc_today aws SnapshotScan) sns
                             (called DescribeSnapshots True s) = (r, s')"
    by force
  have "accounted aws (called DescribeSnapshots True s)"
    using assms(1) by (simp add: accounted_called)
  from snapshots_loop_accounted [OF loop this] assms(2)
  have "accounted aws s' \<and> eips_released (results s') = []"
    by simp
  with Returned loop show ?thesis
    by (cases r) (simp_all add: cleanup_expired_snapshots_def)
qed

lemma process_address_accounted:
  "accounted aws s \<Longrightarrow> accounted aws (process_address aws dry_run (utc_today aws AddressScan) a s)"
  by (auto simp: process_address_def accounted_def Let_def
      split: option.splits outcome.splits if_splits)

lemma addresses_loop_accounted:
  "accounted aws s \<Longrightarrow> accounted aws (addresses_loop aws dry_run (utc_today aws AddressScan) as s)"
  by (induction as arbitrary: s) (simp_all add: process_address_accounted)

lemma cleanup_expired_eips_accounted:
  assumes "accounted aws s"
  shows "accounted aws (cleanup_expired_eips aws dry_run s)"
  using assms
  by (cases "describe_addresses aws (trace s)")
    (simp_all add: cleanup_expired_eips_def accounted_called addresses_loop_accounted Let_def)

lemma accounted_initial: "accounted aws initial_state"
  by (simp add: accounted_def initial_state_def)

lemma accounted_scanned: "accounted aws (scan_expired aws dry_run)"
proof -
  have "snapshots_deleted (results initial_state) = []" "eips_released (results initial_state) = []"
    by (simp_all add: initial_state_def)
  from cleanup_expired_volumes_accounted [OF accounted_initial this]
  have v: "accounted aws (cleanup_expired_volumes aws dry_run initial_state)"
    "snapshots_deleted (results (cleanup_expired_volumes aws dry_run initial_state)) = []"
    "eips_released (results (cleanup_expired_volumes aws dry_run initial_state)) = []"
    by auto
  from cleanup_expired_snapshots_accounted [OF v(1,3)]
  have "accounted aws (cleanup_expired_snapshots aws dry_run
          (cleanup_expired_volumes aws dry_run initial_state))"
    by simp
  then show ?thesis
    unfolding scan_expired_def by (rule cleanup_expired_eips_accounted)
qed


subsection \<open>The ledger writes and the report\<close>

lemma put_items_accepted:
  assumes "\<And>h item. put_item aws h item = Returned ()"
  shows "put_items aws items s =
           (None, s\<lparr>trace := trace s @ map (\<lambda>item. (PutItem item, True)) items\<rparr>)"
  by (induction items arbitrary: s) (simp_all add: assms called_def)

lemma log_deletions_accepted:
  assumes "\<And>h item. put_item aws h item = Returned ()"
  shows "trace (log_deletions_to_dynamodb aws s) =
           trace s @ map (\<lambda>item. (PutItem item, True))
             (map volume_item (volumes_deleted (results s))
              @ map snapshot_item (snapshots_deleted (results s))
              @ map eip_item (eips_released (results s)))"
    and "results (log_deletions_to_dynamodb aws s) = results s"
  by (simp_all add: log_deletions_to_dynamodb_def put_items_accepted [OF assms])

lemma send_cleanup_report_results [simp]:
  "results (send_cleanup_report aws s) = results s"
  by (simp add: send_cleanup_report_def Let_def split: outcome.split)

lemma send_cleanup_report_trace:
  "trace (send_cleanup_report aws s) =
     trace s @ [(Publish (cleanup_subject (results s)) (cleanup_message (results s)),
                 case publish aws (trace s) (cleanup_subject (results s)) (cleanup_message (results s)) of
                   Returned x \<Rightarrow> True | Raised x \<Rightarrow> False)]"
  by (simp add: send_cleanup_report_def Let_def split: outcome.split)

lemma ledger_puts_map_PutItem [simp]:
  "ledger_puts (map (\<lambda>item. (PutItem item, ok)) items) = items"
  by (induction items) simp_all

lemma ledger_puts_map_PutItem_comp [simp]:
  "ledger_puts (map ((\<lambda>item. (PutItem item, ok)) \<circ> f) xs) = map f xs"
  by (induction xs) simp_all

lemma destroyed_map_PutItem [simp]:
  "destroyed (map (\<lambda>item. (PutItem item, ok)) items) = []"
  by (induction items) simp_all

lemma destroyed_map_PutItem_comp [simp]:
  "destroyed (map ((\<lambda>item. (PutItem item, ok)) \<circ> f) xs) = []"
  by (induction xs) simp_all


subsection \<open>Deletes are guarded by snapshots\<close>

lemma guarded_Nil [simp]: "guarded []"
  by (simp add: guarded_def)

lemma guarded_snocI:
  assumes "guarded tr"
    and "\<And>v. c = DeleteVolume v \<Longrightarrow> tr \<noteq> [] \<and> (\<exists>d t. last tr = (CreateSnapshot v d t, True))"
  shows "guarded (tr @ [(c, ok)])"
  unfolding guarded_def
proof (intro allI impI)
  fix i v ok'
  assume a: "i < length (tr @ [(c, ok)]) \<and> (tr @ [(c, ok)]) ! i = (DeleteVolume v, ok')"
  show "0 < i \<and> (\<exists>d t. (tr @ [(c, ok)]) ! (i - 1) = (CreateSnapshot v d t, True))"
  proof (cases "i < length tr")
    case True
    with a have "tr ! i = (DeleteVolume v, ok')" by (simp add: nth_append)
    with assms(1) True have "0 < i \<and> (\<exists>d t. tr ! (i - 1) = (CreateSnapshot v d t, True))"
      unfolding guarded_def by blast
    moreover from this True have "i - 1 < length tr" by linarith
    ultimately show ?thesis by (simp add: nth_append)
  next
    case False
    with a have i: "i = length tr" by simp
    with a have "c = DeleteVolume v" by simp
    from assms(2) [OF this] have ne: "tr \<noteq> []" and l: "\<exists>d t. last tr = (CreateSnapshot v d t, True)"
      by auto
    from ne have "last tr = tr ! (length tr - 1)" by (simp add: last_conv_nth)
    with l ne i show ?thesis by (simp add: nth_append)
  qed
qed

lemma guarded_other:
  "guarded tr \<Longrightarrow> (case c of DeleteVolume v \<Rightarrow> False | _ \<Rightarrow> True) \<Longrightarrow> guarded (tr @ [(c, ok)])"
  by (rule guarded_snocI) auto

lemma guarded_snapshot_then_delete:
  assumes "guarded tr"
  shows "guarded (tr @ [(snapshot_request v today, True), (DeleteVolume v, ok)])"
proof -
  have "guarded (tr @ [(snapshot_request v today, True)])"
    using assms by (rule guarded_snocI) (simp add: snapshot_request_def)
  then have "guarded ((tr @ [(snapshot_request v today, True)]) @ [(DeleteVolume v, ok)])"
    by (rule guarded_snocI) (simp add: snapshot_request_def)
  then show ?thesis by simp
qed

lemma guarded_snapshot_request:
  "guarded tr \<Longrightarrow> guarded (tr @ [(snapshot_request v today, ok)])"
  by (rule guarded_snocI) (simp_all add: snapshot_request_def)

lemma process_volume_guarded:
  assumes "process_volume aws dry_run today v s = (r, s')" and "guarded (trace s)"
  shows "guarded (trace s')"
  using assms
  by (auto simp: process_volume_def delete_the_volume_def Let_def
      guarded_snapshot_then_delete guarded_snapshot_request
      split: option.splits sum.splits outcome.splits if_splits)

lemma volumes_loop_guarded:
  assumes "volumes_loop aws dry_run today vs s = (r, s')" and "guarded (trace s)"
  shows "guarded (trace s')"
  using assms
proof (induction vs arbitrary: s)
  case Nil
  then show ?case by simp
next
  case (Cons v vs)
  obtain r1 s1 where step: "process_volume aws dry_run today v s = (r1, s1)"
    by force
  from process_volume_guarded [OF step Cons.prems(2)] have g: "guarded (trace s1)" .
  show ?case
  proof (cases r1)
    case None
    with Cons.prems(1) step have "volumes_loop aws dry_run today vs s1 = (r, s')" by simp
    from Cons.IH [OF this g] show ?thesis .
  next
    case (Some e)
    with Cons.prems(1) step g show ?thesis by simp
  qed
qed

lemma cleanup_expired_volumes_guarded:
  assumes "guarded (trace s)"
  shows "guarded (trace (cleanup_expired_volumes aws dry_run s))"
proof (cases "describe_volumes aws (trace s)")
  case (Raised msg)
  with assms show ?thesis
    by (simp add: cleanup_expired_volumes_def guarded_other)
next
  case (Returned vs)
  obtain r s' where loop: "volumes_loop aws dry_run (utc_today aws VolumeScan) vs
                             (called DescribeVolumes True s) = (r, s')"
    by force
  have "guarded (trace (called DescribeVolumes True s))"
    using assms by (simp add: guarded_other)
  from volumes_loop_guarded [OF loop this] have "guarded (trace s')" .
  with Returned loop show ?thesis
    by (cases r) (simp_all add: cleanup_expired_volumes_def)
qed

lemma process_snapshot_guarded:
  assumes "process_snapshot aws dry_run today sn s = (r, s')" and "guarded (trace s)"
  shows "guarded (trace s')"
  using assms
  by (auto simp: process_snapshot_def Let_def guarded_other
      split: option.splits sum.splits outcome.splits if_splits)

lemma snapshots_loop_guarded:
  assumes "snapshots_loop aws dry_run today sns s = (r, s')" and "guarded (trace s)"
  shows "guarded (trace s')"
  using assms
proof (induction sns arbitrary: s)
  case Nil
  then show ?case by simp
next
  case (Cons sn sns)
  obtain r1 s1 where step: "process_snapshot aws dry_run today sn s = (r1, s1)"
    by force
  from process_snapshot_guarded [OF step Cons.prems(2)] have g: "guarded (trace s1)" .
  show ?case
  proof (cases r1)
    case None
    with Cons.prems(1) step have "snapshots_loop aws dry_run today sns s1 = (r, s')" by simp
    from Cons.IH [OF this g] show ?thesis .
  next
    case (Some e)
    with Cons.prems(1) step g show ?thesis by simp
  qed
qed

lemma cleanup_expired_snapshots_guarded:
  assumes "guarded (trace s)"
  shows "guarded (trace (cleanup_expired_snapshots aws dry_run s))"
proof (cases "describe_snapshots aws (trace s)")
  case (Raised msg)
  with assms show ?thesis
    by (simp add: cleanup_expired_snapshots_def guarded_other)
next
  case (Returned sns)
  obtain r s' where loop: "snapshots_loop aws dry_run (utc_today aws SnapshotScan) sns
                             (called DescribeSnapshots True s) = (r, s')"
    by force
  have "guarded (trace (called DescribeSnapshots True s))"
    using assms by (simp add: guarded_other)
  from snapshots_loop_guarded [OF loop this] have "guarded (trace s')" .
  with Returned loop show ?thesis
    by (cases r) (simp_all add: cleanup_expired_snapshots_def)
qed

lemma process_address_guarded:
  "guarded (trace s) \<Longrightarrow> guarded (trace (process_address aws dry_run today a s))"
  by (auto simp: process_address_def Let_def guarded_other split: option.splits outcome.splits)

lemma addresses_loop_guarded:
  "guarded (trace s) \<Longrightarrow> guarded (trace (addresses_loop aws dry_run today as s))"
  by (induction as arbitrary: s) (simp_all add: process_address_guarded)

lemma cleanup_expired_eips_guarded:
  "guarded (trace s) \<Longrightarrow> guarded (trace (cleanup_expired_eips aws dry_run s))"
  by (cases "describe_addresses aws (trace s)")
    (simp_all add: cleanup_expired_eips_def guarded_other addresses_loop_guarded Let_def)

lemma guarded_scanned: "guarded (trace (scan_expired aws dry_run))"
  unfolding scan_expired_def
  by (intro cleanup_expired_eips_guarded cleanup_expired_snapshots_guarded
      cleanup_expired_volumes_guarded) (simp add: initial_state_def)

lemma put_items_guarded:
  assumes "put_items aws items s = (r, s')" and "guarded (trace s)"
  shows "guarded (trace s')"
  using assms
  by (induction items arbitrary: s) (auto simp: guarded_other split: outcome.splits)

lemma put_items_puts:
  assumes "put_items aws items s = (r, s')"
  shows "set (ledger_puts (trace s')) \<subseteq> set (ledger_puts (trace s)) \<union> set items
         \<and> destroyed (trace s') = destroyed (trace s) \<and> set (trace s) \<subseteq> set (trace s')"
  using assms
proof (induction items arbitrary: s)
  case Nil
  then show ?case by simp
next
  case (Cons item items)
  show ?case
  proof (cases "put_item aws (trace s) item")
    case (Raised msg)
    with Cons.prems show ?thesis by auto
  next
    case (Returned u)
    with Cons.prems have "put_items aws items (called (PutItem item) True s) = (r, s')" by simp
    from Cons.IH [OF this] show ?thesis by auto
  qed
qed


subsection \<open>The ledger holds destroyed resources only\<close>

lemma put_items_results:
  "put_items aws items s = (r, s') \<Longrightarrow> results s' = results s"
  by (induction items arbitrary: s) (auto split: outcome.splits)

lemma log_deletions_results [simp]:
  "results (log_deletions_to_dynamodb aws s) = results s"
proof -
  obtain r1 s1 where p1: "put_items aws (map volume_item (volumes_deleted (results s))) s = (r1, s1)"
    by force
  obtain r2 s2 where p2: "put_items aws (map snapshot_item (snapshots_deleted (results s))) s1 = (r2, s2)"
    by force
  obtain r3 s3 where p3: "put_items aws (map eip_item (eips_released (results s))) s2 = (r3, s3)"
    by force
  note put_items_results [OF p1] put_items_results [OF p2] put_items_results [OF p3]
  then show ?thesis
    by (cases r1; cases r2; cases r3) (simp_all add: log_deletions_to_dynamodb_def p1 p2 p3)
qed

lemma log_deletions_general:
  assumes "guarded (trace s)"
  shows "guarded (trace (log_deletions_to_dynamodb aws s))"
    and "set (ledger_puts (trace (log_deletions_to_dynamodb aws s)))
           \<subseteq> set (ledger_puts (trace s))
             \<union> set (map volume_item (volumes_deleted (results s)))
             \<union> set (map snapshot_item (snapshots_deleted (results s)))
             \<union> set (map eip_item (eips_released (results s)))"
    and "destroyed (trace (log_deletions_to_dynamodb aws s)) = destroyed (trace s)"
    and "set (trace s) \<subseteq> set (trace (log_deletions_to_dynamodb aws s))"
proof -
  obtain r1 s1 where p1: "put_items aws (map volume_item (volumes_deleted (results s))) s = (r1, s1)"
    by force
  obtain r2 s2 where p2: "put_items aws (map snapshot_item (snapshots_deleted (results s))) s1 = (r2, s2)"
    by force
  obtain r3 s3 where p3: "put_items aws (map eip_item (eips_released (results s))) s2 = (r3, s3)"
    by force
  note g1 = put_items_guarded [OF p1 assms]
  note g2 = put_items_guarded [OF p2 g1]
  note g3 = put_items_guarded [OF p3 g2]
  note q1 = put_items_puts [OF p1] and q2 = put_items_puts [OF p2] and q3 = put_items_puts [OF p3]
  have t: "trace (log_deletions_to_dynamodb aws s) = trace s1 \<and> r1 \<noteq> None
         \<or> trace (log_deletions_to_dynamodb aws s) = trace s2 \<and> r1 = None \<and> r2 \<noteq> None
         \<or> trace (log_deletions_to_dynamodb aws s) = trace s3 \<and> r1 = None \<and> r2 = None"
    by (cases r1; cases r2; cases r3) (simp_all add: log_deletions_to_dynamodb_def p1 p2 p3)
  from t g1 g2 g3 show "guarded (trace (log_deletions_to_dynamodb aws s))"
    by auto
  from t q1 q2 q3 show "set (ledger_puts (trace (log_deletions_to_dynamodb aws s)))
           \<subseteq> set (ledger_puts (trace s))
             \<union> set (map volume_item (volumes_deleted (results s)))
             \<union> set (map snapshot_item (snapshots_deleted (results s)))
             \<union> set (map eip_item (eips_released (results s)))"
    by (elim disjE conjE; simp only: set_map; blast)
  from t q1 q2 q3 show "destroyed (trace (log_deletions_to_dynamodb aws s)) = destroyed (trace s)"
    by auto
  from t q1 q2 q3 show "set (trace s) \<subseteq> set (trace (log_deletions_to_dynamodb aws s))"
    by (elim disjE conjE; simp only:; blast)
qed

lemma destroyed_mem:
  "(kind, ident) \<in> set (destroyed tr) \<Longrightarrow>
     (kind = ''ebs_volume'' \<and> (DeleteVolume ident, True) \<in> set tr)
     \<or> (kind = ''snapshot'' \<and> (DeleteSnapshot ident, True) \<in> set tr)
     \<or> (kind = ''elastic_ip'' \<and> (ReleaseAddress ident, True) \<in> set tr)"
proof (induction tr)
  case Nil
  then show ?case by simp
next
  case (Cons e tr)
  obtain c ok where e: "e = (c, ok)" by force
  from Cons.prems have "(kind, ident) \<in> set (destroyed_by e) \<or> (kind, ident) \<in> set (destroyed tr)"
    by simp
  then show ?case
  proof
    assume "(kind, ident) \<in> set (destroyed_by e)"
    then show ?thesis
      unfolding e by (cases c; cases ok) simp_all
  next
    assume "(kind, ident) \<in> set (destroyed tr)"
    from Cons.IH [OF this] show ?thesis by auto
  qed
qed

lemma run_cleanup_guarded: "guarded (trace (run_cleanup aws dry_run))"
  unfolding run_cleanup_def send_cleanup_report_trace
  by (intro guarded_other log_deletions_general(1) guarded_scanned) simp

lemma run_cleanup_ledger_sound:
  assumes "item \<in> set (ledger_puts (trace (run_cleanup aws dry_run)))"
  shows "(li_resource_type item, li_resource_id item) \<in> set (destroyed (trace (run_cleanup aws dry_run)))"
proof -
  let ?s = "scan_expired aws dry_run"
  have acc: "accounted aws ?s" by (rule accounted_scanned)
  have g: "guarded (trace ?s)" by (rule guarded_scanned)
  have "ledger_puts (trace (run_cleanup aws dry_run)) = ledger_puts (trace (log_deletions_to_dynamodb aws ?s))"
    by (simp add: run_cleanup_def send_cleanup_report_trace)
  with assms log_deletions_general(2) [OF g, of aws] acc
  have "item \<in> set (map volume_item (volumes_deleted (results ?s)))
             \<union> set (map snapshot_item (snapshots_deleted (results ?s)))
             \<union> set (map eip_item (eips_released (results ?s)))"
    by (auto simp: accounted_def)
  then have "(li_resource_type item, li_resource_id item) \<in> set (destroyed (trace ?s))"
    using acc by (auto simp: accounted_def volume_item_def snapshot_item_def eip_item_def)
  moreover have "destroyed (trace (run_cleanup aws dry_run)) = destroyed (trace ?s)"
    by (simp add: run_cleanup_def send_cleanup_report_trace log_deletions_general(3) [OF g])
  ultimately show ?thesis by simp
qed


subsection \<open>The example account\<close>

lemma expired_tags_deadline [simp]:
  "tags_deadline expired_tags None = Some \<lparr>year = 2025, month = 1, day = 1\<rparr>"
  by (simp add: expired_tags_def TAG_KEY_def TAG_VALUE_PREFIX_def replace_with_empty.simps
      is_digit_def in_range_def digit_value_def make_date_def valid_date_def days_in_month_def
      days_in_month_of_def is_leap_def)

lemma expired_tags_invalid [simp]: "invalid_deadline_values expired_tags = []"
  by (simp add: invalid_deadline_values_def expired_tags_def TAG_KEY_def TAG_VALUE_PREFIX_def
      replace_with_empty.simps is_digit_def in_range_def digit_value_def make_date_def
      valid_date_def days_in_month_def days_in_month_of_def is_leap_def)

lemma expired_example [simp]: "expired example_today expired_tags"
  by (simp add: expired_def example_today_def date_ge_def)

lemma price_of_gp2 [simp]: "price_of ''gp2'' = dec 114 3"
  by (simp add: price_of_def price_per_gb_def)

lemma price_of_gp3 [simp]: "price_of ''gp3'' = dec 91 3"
  by (simp add: price_of_def price_per_gb_def)

lemma volume_cost_8:
  "volume_cost 8 volume_type = Inr (fmul (Finite 8) (price_of volume_type))"
  by (simp add: volume_cost_def float_of_int_8)

lemma run_cleanup_destroyed:
  "destroyed (trace (run_cleanup aws dry_run)) = destroyed (trace (scan_expired aws dry_run))"
  by (simp add: run_cleanup_def send_cleanup_report_trace log_deletions_general(3) [OF guarded_scanned])

lemma example_volume_scan:
  "cleanup_expired_volumes example_aws False initial_state =
     \<lparr>results =
        \<lparr>volumes_deleted =
           [\<lparr>dv_volume_id = ''vol-1'', dv_size_gb = 8, dv_volume_type = ''gp2'',
             dv_monthly_savings = fmul (Finite 8) (dec 114 3), dv_snapshot_id = Some ''snap-1'',
             dv_deleted_date = isoformat example_today\<rparr>],
         snapshots_deleted = [], eips_released = [],
         volumes_skipped = [\<lparr>sv_volume_id = ''vol-2'', sv_reason = ''attached_to_instance''\<rparr>],
         snapshots_skipped = [],
         total_savings_monthly = fadd (Finite 0) (fmul (Finite 8) (dec 114 3))\<rparr>,
      trace = [(DescribeVolumes, True), (snapshot_request ''vol-1'' example_today, True),
               (DeleteVolume ''vol-1'', True)],
      stdout = [CreatedSafetySnapshot ''snap-1'',
                DeletedVolume ''vol-1'' 8 ''gp2'' (fmul (Finite 8) (dec 114 3)),
                SkippedNowAttached ''vol-2'', VolumesSummary 1 1]\<rparr>"
  by (simp add: cleanup_expired_volumes_def example_aws_def process_volume_def Let_def
      delete_the_volume_def idle_volume_def attached_volume_def volume_cost_8
      initial_state_def
      called_def printed_def skip_volume_def record_deleted_volume_def
      example_today_def date_ge_def TAG_KEY_def)


lemma example_scan:
  "scan_expired example_aws False =
     \<lparr>results =
        \<lparr>volumes_deleted =
           [\<lparr>dv_volume_id = ''vol-1'', dv_size_gb = 8, dv_volume_type = ''gp2'',
             dv_monthly_savings = fmul (Finite 8) (dec 114 3), dv_snapshot_id = Some ''snap-1'',
             dv_deleted_date = isoformat example_today\<rparr>],
         snapshots_deleted = [], eips_released = [],
         volumes_skipped = [\<lparr>sv_volume_id = ''vol-2'', sv_reason = ''attached_to_instance''\<rparr>],
         snapshots_skipped = [],
         total_savings_monthly = fadd (Finite 0) (fmul (Finite 8) (dec 114 3))\<rparr>,
      trace = [(DescribeVolumes, True), (snapshot_request ''vol-1'' example_today, True),
               (DeleteVolume ''vol-1'', True), (DescribeSnapshots, True),
               (DescribeAddresses, True)],
      stdout = [CreatedSafetySnapshot ''snap-1'',
                DeletedVolume ''vol-1'' 8 ''gp2'' (fmul (Finite 8) (dec 114 3)),
                SkippedNowAttached ''vol-2'', VolumesSummary 1 1, SnapshotsSummary 0,
                SkippedNowAssociated ''eipalloc-1'' ''203.0.113.7'', EipsSummary 0]\<rparr>"
  unfolding scan_expired_def example_volume_scan
  by (simp add: cleanup_expired_snapshots_def cleanup_expired_eips_def example_aws_def
      process_address_def associated_address_def called_def printed_def Let_def
      example_today_def date_ge_def)

lemma rnd_0_114: "rnd (57 / 500) = Finite (8214565720323785 / 72057594037927936)"
  using rnd_eqI [of "- 4" "57 / 500" "8214565720323785"] round_half_even_eqI [of "57 / 500 / pow2 (-4 - 52)" "8214565720323785"]
  by (simp add: pow2_def)

lemma rnd_8_gp2: "rnd (8214565720323785 / 9007199254740992) = Finite (8214565720323785 / 9007199254740992)"
  using rnd_eqI [of "- 1" "8214565720323785 / 9007199254740992" "8214565720323785"] round_half_even_eqI [of "8214565720323785 / 9007199254740992 / pow2 (-1 - 52)" "8214565720323785"]
  by (simp add: pow2_def)

lemma cents_cost: "round_half_even (205364143008094625 / 2251799813685248) = 91"
  using round_half_even_eqI [of "205364143008094625 / 2251799813685248" "91"] by simp

lemma rnd_cost_yearly: "rnd (24643697160971355 / 2251799813685248) = Finite (6160924290242839 / 562949953421312)"
  using rnd_eqI [of "3" "24643697160971355 / 2251799813685248" "6160924290242839"] round_half_even_eqI [of "24643697160971355 / 2251799813685248 / pow2 (3 - 52)" "6160924290242839"]
  by (simp add: pow2_def)

lemma cents_cost_yearly: "round_half_even (154023107256070975 / 140737488355328) = 1094"
  using round_half_even_eqI [of "154023107256070975 / 140737488355328" "1094"] by simp

lemma example_cost: "fmul (Finite 8) (dec 114 3) = Finite (8214565720323785 / 9007199254740992)"
  by (simp add: dec_def rnd_0_114 rnd_8_gp2)

lemma example_today_iso: "isoformat example_today = ''2025-02-01''"
  by (simp add: isoformat_def example_today_def pad4_def pad2_def str_nat.simps digit_char_def)

lemma example_message:
  "cleanup_message (results (scan_expired example_aws False)) =
     ''AWS Cleanup: Deleted 1 expired resources. Savings: $0.91/mo ($10.94/yr). 1 volumes. Safety snapshots created. Check CloudWatch for details.''"
  by (simp add: example_scan cleanup_message_def example_cost rnd_8_gp2 cents_cost rnd_cost_yearly
      cents_cost_yearly str_nat.simps digit_char_def pad2_def)


subsection \<open>Dry runs\<close>

lemma fits_float_small: "0 \<le> n \<Longrightarrow> n < 2 ^ 53 \<Longrightarrow> fits_float n"
  by (simp add: fits_float_def float_of_int_small)

lemma fits_float_volume_cost:
  "fits_float n \<Longrightarrow> \<exists>c. volume_cost n t = Inr c"
  by (auto simp: fits_float_def volume_cost_def split: sum.splits)

lemma process_volume_dry:
  assumes "process_volume aws True today v s = (r, s')"
  shows "trace s' = trace s \<and> same_deletions s s'"
  using assms
  by (auto simp: process_volume_def delete_the_volume_def Let_def same_deletions_def
      split: option.splits sum.splits if_splits)

lemma volumes_loop_dry:
  assumes "volumes_loop aws True today vs s = (r, s')"
  shows "trace s' = trace s \<and> same_deletions s s'"
  using assms
proof (induction vs arbitrary: s)
  case Nil
  then show ?case by (simp add: same_deletions_def)
next
  case (Cons v vs)
  obtain r1 s1 where step: "process_volume aws True today v s = (r1, s1)" by force
  note one = process_volume_dry [OF step]
  show ?case
  proof (cases r1)
    case None
    with Cons.prems step have "volumes_loop aws True today vs s1 = (r, s')" by simp
    from Cons.IH [OF this] one show ?thesis by (simp add: same_deletions_def)
  next
    case (Some e)
    with Cons.prems step one show ?thesis by simp
  qed
qed

lemma cleanup_expired_volumes_dry:
  "trace (cleanup_expired_volumes aws True s) =
     trace s @ [(DescribeVolumes, returned (describe_volumes aws (trace s)))]
   \<and> same_deletions s (cleanup_expired_volumes aws True s)"
proof (cases "describe_volumes aws (trace s)")
  case (Raised msg)
  then show ?thesis
    by (simp add: cleanup_expired_volumes_def returned_def same_deletions_def)
next
  case (Returned vs)
  obtain r s' where loop: "volumes_loop aws True (utc_today aws VolumeScan) vs
                             (called DescribeVolumes True s) = (r, s')"
    by force
  from volumes_loop_dry [OF loop] Returned loop show ?thesis
    by (cases r) (simp_all add: cleanup_expired_volumes_def returned_def same_deletions_def)
qed

lemma process_snapshot_dry:
  assumes "process_snapshot aws True today sn s = (r, s')"
  shows "trace s' = trace s \<and> same_deletions s s'
         \<and> volumes_skipped (results s') = volumes_skipped (results s)"
  using assms
  by (auto simp: process_snapshot_def Let_def same_deletions_def
      split: option.splits sum.splits if_splits)

lemma snapshots_loop_dry:
  assumes "snapshots_loop aws True today sns s = (r, s')"
  shows "trace s' = trace s \<and> same_deletions s s'
         \<and> volumes_skipped (results s') = volumes_skipped (results s)"
  using assms
proof (induction sns arbitrary: s)
  case Nil
  then show ?case by (simp add: same_deletions_def)
next
  case (Cons sn sns)
  obtain r1 s1 where step: "process_snapshot aws True today sn s = (r1, s1)" by force
  note one = process_snapshot_dry [OF step]
  show ?case
  proof (cases r1)
    case None
    with Cons.prems step have "snapshots_loop aws True today sns s1 = (r, s')" by simp
    from Cons.IH [OF this] one show ?thesis by (simp add: same_deletions_def)
  next
    case (Some e)
    with Cons.prems step one show ?thesis by simp
  qed
qed

lemma cleanup_expired_snapshots_dry:
  "trace (cleanup_expired_snapshots aws True s) =
     trace s @ [(DescribeSnapshots, returned (describe_snapshots aws (trace s)))]
   \<and> same_deletions s (cleanup_expired_snapshots aws True s)
   \<and> volumes_skipped (results (cleanup_expired_snapshots aws True s)) = volumes_skipped (results s)"
proof (cases "describe_snapshots aws (trace s)")
  case (Raised msg)
  then show ?thesis
    by (simp add: cleanup_expired_snapshots_def returned_def same_deletions_def)
next
  case (Returned sns)
  obtain r s' where loop: "snapshots_loop aws True (utc_today aws SnapshotScan) sns
                             (called DescribeSnapshots True s) = (r, s')"
    by force
  from snapshots_loop_dry [OF loop] Returned loop show ?thesis
    by (cases r) (simp_all add: cleanup_expired_snapshots_def returned_def same_deletions_def)
qed

lemma process_address_dry:
  "trace (process_address aws True today a s) = trace s
   \<and> results (process_address aws True today a s) = results s"
  by (simp add: process_address_def split: option.splits)

lemma addresses_loop_dry:
  "trace (addresses_loop aws True today as s) = trace s
   \<and> results (addresses_loop aws True today as s) = results s"
  by (induction as arbitrary: s) (simp_all add: process_address_dry)

lemma cleanup_expired_eips_dry:
  "trace (cleanup_expired_eips aws True s) =
     trace s @ [(DescribeAddresses, returned (describe_addresses aws (trace s)))]
   \<and> results (cleanup_expired_eips aws True s) = results s"
  by (cases "describe_addresses aws (trace s)")
    (simp_all add: cleanup_expired_eips_def returned_def addresses_loop_dry Let_def)


lemma process_volume_dry_skipped:
  assumes "fits_float (Size v)"
  shows "\<exists>s'. process_volume aws True today v s = (None, s')
           \<and> volumes_skipped (results s') =
               volumes_skipped (results s)
               @ (if expired today (VolumeTags v) \<and> Attachments v \<noteq> []
                  then [\<lparr>sv_volume_id = VolumeId v, sv_reason = ''attached_to_instance''\<rparr>]
                  else [])"
proof -
  from fits_float_volume_cost [OF assms] obtain c where "volume_cost (Size v) (VolumeType v) = Inr c"
    by blast
  then show ?thesis
    by (auto simp: process_volume_def delete_the_volume_def Let_def expired_def split: option.splits)
qed

lemma volumes_loop_dry_skipped:
  assumes "list_all (\<lambda>v. fits_float (Size v)) vs"
  shows "\<exists>s'. volumes_loop aws True today vs s = (None, s')
           \<and> volumes_skipped (results s') =
               volumes_skipped (results s)
               @ map (\<lambda>v. \<lparr>sv_volume_id = VolumeId v, sv_reason = ''attached_to_instance''\<rparr>)
                   (filter (\<lambda>v. expired today (VolumeTags v) \<and> Attachments v \<noteq> []) vs)"
  using assms
proof (induction vs arbitrary: s)
  case Nil
  then show ?case by simp
next
  case (Cons v vs)
  from Cons.prems have fit: "fits_float (Size v)" and rest: "list_all (\<lambda>v. fits_float (Size v)) vs"
    by simp_all
  from process_volume_dry_skipped [OF fit, of aws today s]
  obtain s1 where step: "process_volume aws True today v s = (None, s1)"
    and sk1: "volumes_skipped (results s1) =
               volumes_skipped (results s)
               @ (if expired today (VolumeTags v) \<and> Attachments v \<noteq> []
                  then [\<lparr>sv_volume_id = VolumeId v, sv_reason = ''attached_to_instance''\<rparr>]
                  else [])"
    by blast
  from Cons.IH [OF rest, of s1]
  obtain s' where loop: "volumes_loop aws True today vs s1 = (None, s')"
    and sk: "volumes_skipped (results s') =
               volumes_skipped (results s1)
               @ map (\<lambda>v. \<lparr>sv_volume_id = VolumeId v, sv_reason = ''attached_to_instance''\<rparr>)
                   (filter (\<lambda>v. expired today (VolumeTags v) \<and> Attachments v \<noteq> []) vs)"
    by blast
  from step loop have "volumes_loop aws True today (v # vs) s = (None, s')" by simp
  moreover from sk sk1 have "volumes_skipped (results s') =
               volumes_skipped (results s)
               @ map (\<lambda>v. \<lparr>sv_volume_id = VolumeId v, sv_reason = ''attached_to_instance''\<rparr>)
                   (filter (\<lambda>v. expired today (VolumeTags v) \<and> Attachments v \<noteq> []) (v # vs))"
    by simp
  ultimately show ?case by blast
qed

lemma cleanup_expired_volumes_dry_skipped:
  assumes "describe_volumes aws (trace s) = Returned vs"
    and "list_all (\<lambda>v. fits_float (Size v)) vs"
  shows "volumes_skipped (results (cleanup_expired_volumes aws True s)) =
           volumes_skipped (results s)
           @ map (\<lambda>v. \<lparr>sv_volume_id = VolumeId v, sv_reason = ''attached_to_instance''\<rparr>)
               (filter (\<lambda>v. expired (utc_today aws VolumeScan) (VolumeTags v) \<and> Attachments v \<noteq> []) vs)"
proof -
  from volumes_loop_dry_skipped [OF assms(2), of aws "utc_today aws VolumeScan" "called DescribeVolumes True s"]
  obtain s' where "volumes_loop aws True (utc_today aws VolumeScan) vs (called DescribeVolumes True s) = (None, s')"
    and "volumes_skipped (results s') =
           volumes_skipped (results (called DescribeVolumes True s))
           @ map (\<lambda>v. \<lparr>sv_volume_id = VolumeId v, sv_reason = ''attached_to_instance''\<rparr>)
               (filter (\<lambda>v. expired (utc_today aws VolumeScan) (VolumeTags v) \<and> Attachments v \<noteq> []) vs)"
    by blast
  then show ?thesis
    by (simp add: cleanup_expired_volumes_def assms(1))
qed

lemma format_2f_zero [simp]: "format_2f (Finite 0) = ''0.00''"
  by (simp add: str_nat.simps digit_char_def pad2_def)

lemma dry_scan:
  "trace (scan_expired aws True) =
     [(DescribeVolumes, returned (describe_volumes aws [])),
      (DescribeSnapshots,
       returned (describe_snapshots aws [(DescribeVolumes, returned (describe_volumes aws []))])),
      (DescribeAddresses,
       returned (describe_addresses aws
         [(DescribeVolumes, returned (describe_volumes aws [])),
          (DescribeSnapshots,
           returned (describe_snapshots aws [(DescribeVolumes, returned (describe_volumes aws []))]))]))]"
  "same_deletions initial_state (scan_expired aws True)"
  "volumes_skipped (results (scan_expired aws True)) =
     volumes_skipped (results (cleanup_expired_volumes aws True initial_state))"
proof -
  let ?v = "cleanup_expired_volumes aws True initial_state"
  let ?s = "cleanup_expired_snapshots aws True ?v"
  note v = cleanup_expired_volumes_dry [of aws initial_state]
  note s = cleanup_expired_snapshots_dry [of aws ?v]
  note e = cleanup_expired_eips_dry [of aws ?s]
  have t0: "trace initial_state = []" by (simp add: initial_state_def)
  from v s e t0 show "trace (scan_expired aws True) =
     [(DescribeVolumes, returned (describe_volumes aws [])),
      (DescribeSnapshots,
       returned (describe_snapshots aws [(DescribeVolumes, returned (describe_volumes aws []))])),
      (DescribeAddresses,
       returned (describe_addresses aws
         [(DescribeVolumes, returned (describe_volumes aws [])),
          (DescribeSnapshots,
           returned (describe_snapshots aws [(DescribeVolumes, returned (describe_volumes aws []))]))]))]"
    by (simp add: scan_expired_def)
  from v s e show "same_deletions initial_state (scan_expired aws True)"
    by (simp add: scan_expired_def same_deletions_def)
  from s e show "volumes_skipped (results (scan_expired aws True)) =
     volumes_skipped (results (cleanup_expired_volumes aws True initial_state))"
    by (simp add: scan_expired_def)
qed

lemma log_nothing:
  assumes "volumes_deleted (results s) = []" and "snapshots_deleted (results s) = []"
    and "eips_released (results s) = []"
  shows "trace (log_deletions_to_dynamodb aws s) = trace s"
  by (simp add: log_deletions_to_dynamodb_def assms)

lemma nothing_deleted_message:
  assumes "volumes_deleted r = []" and "snapshots_deleted r = []" and "eips_released r = []"
  shows "cleanup_message r =
           ''AWS Cleanup: No expired resources found. All tagged resources still in grace period.''"
  by (simp add: cleanup_message_def assms)


section \<open>The Reaper: the claims\<close>

text \<open>
  C1. A tagged volume whose deadline has expired and which is unattached, whose safety
  snapshot raises with dry-run off, is finished with that one failed call: no delete
  call follows, the volume joins \<^verbatim>\<open>volumes_skipped\<close> with the reason
  \<^verbatim>\<open>snapshot_failed: ...\<close>, and no entry joins the deleted lists from which the ledger is
  written. In every run, each volume-delete call comes directly after a safety snapshot
  of the same volume that returned, and each ledger item is a resource whose delete or
  release call returned.
\<close>

theorem snapshot_failure_skips_volume:
  assumes "expired today (VolumeTags v)"
    and "Attachments v = []"
    and "volume_cost (Size v) (VolumeType v) = Inr monthly_cost"
    and "create_snapshot aws (trace s) (VolumeId v) = Raised msg"
  shows "(\<exists>s'. process_volume aws False today v s = (None, s')
            \<and> trace s' = trace s @ [(snapshot_request (VolumeId v) today, False)]
            \<and> volumes_skipped (results s') =
                volumes_skipped (results s)
                @ [\<lparr>sv_volume_id = VolumeId v, sv_reason = ''snapshot_failed: '' @ msg\<rparr>]
            \<and> volumes_deleted (results s') = volumes_deleted (results s)
            \<and> snapshots_deleted (results s') = snapshots_deleted (results s)
            \<and> eips_released (results s') = eips_released (results s)
            \<and> total_savings_monthly (results s') = total_savings_monthly (results s))
       \<and> guarded (trace (run_cleanup aws dry_run))
       \<and> set (map (\<lambda>item. (li_resource_type item, li_resource_id item))
                (ledger_puts (trace (run_cleanup aws dry_run))))
           \<subseteq> set (destroyed (trace (run_cleanup aws dry_run)))"
proof (intro conjI)
  from assms(1) obtain d where d: "tags_deadline (VolumeTags v) None = Some d" "date_ge today d"
    by (auto simp: expired_def split: option.splits)
  show "\<exists>s'. process_volume aws False today v s = (None, s')
            \<and> trace s' = trace s @ [(snapshot_request (VolumeId v) today, False)]
            \<and> volumes_skipped (results s') =
                volumes_skipped (results s)
                @ [\<lparr>sv_volume_id = VolumeId v, sv_reason = ''snapshot_failed: '' @ msg\<rparr>]
            \<and> volumes_deleted (results s') = volumes_deleted (results s)
            \<and> snapshots_deleted (results s') = snapshots_deleted (results s)
            \<and> eips_released (results s') = eips_released (results s)
            \<and> total_savings_monthly (results s') = total_savings_monthly (results s)"
    using d assms(2,3,4) by (simp add: process_volume_def Let_def)
  show "guarded (trace (run_cleanup aws dry_run))"
    by (rule run_cleanup_guarded)
  show "set (map (\<lambda>item. (li_resource_type item, li_resource_id item))
                (ledger_puts (trace (run_cleanup aws dry_run))))
           \<subseteq> set (destroyed (trace (run_cleanup aws dry_run)))"
    using run_cleanup_ledger_sound [of _ aws dry_run] by auto
qed

theorem snapshot_failure_skips_volume_witness:
  "expired example_today (VolumeTags idle_volume)
   \<and> Attachments idle_volume = []
   \<and> volume_cost (Size idle_volume) (VolumeType idle_volume) = Inr (fmul (Finite 8) (dec 114 3))
   \<and> create_snapshot failing_aws (trace initial_state) (VolumeId idle_volume) = Raised ''limit exceeded''
   \<and> (\<exists>s'. process_volume failing_aws False example_today idle_volume initial_state = (None, s')
          \<and> trace s' = [(snapshot_request ''vol-1'' example_today, False)]
          \<and> volumes_skipped (results s') =
               [\<lparr>sv_volume_id = ''vol-1'', sv_reason = ''snapshot_failed: limit exceeded''\<rparr>]
          \<and> volumes_deleted (results s') = [])"
proof -
  have h1: "expired example_today (VolumeTags idle_volume)"
    by (simp add: idle_volume_def)
  have h2: "Attachments idle_volume = []"
    by (simp add: idle_volume_def)
  have h3: "volume_cost (Size idle_volume) (VolumeType idle_volume) = Inr (fmul (Finite 8) (dec 114 3))"
    by (simp add: idle_volume_def volume_cost_8)
  have h4: "create_snapshot failing_aws (trace initial_state) (VolumeId idle_volume) = Raised ''limit exceeded''"
    by (simp add: failing_aws_def)
  from snapshot_failure_skips_volume [OF h1 h2 h3 h4, of False, THEN conjunct1]
  obtain s' where s': "process_volume failing_aws False example_today idle_volume initial_state = (None, s')"
    "trace s' = trace initial_state @ [(snapshot_request (VolumeId idle_volume) example_today, False)]"
    "volumes_skipped (results s') =
       volumes_skipped (results initial_state)
       @ [\<lparr>sv_volume_id = VolumeId idle_volume, sv_reason = ''snapshot_failed: '' @ ''limit exceeded''\<rparr>]"
    "volumes_deleted (results s') = volumes_deleted (results initial_state)"
    by blast
  have "trace s' = [(snapshot_request ''vol-1'' example_today, False)]"
    "volumes_skipped (results s') =
       [\<lparr>sv_volume_id = ''vol-1'', sv_reason = ''snapshot_failed: limit exceeded''\<rparr>]"
    "volumes_deleted (results s') = []"
    using s'(2,3,4) by (simp_all add: idle_volume_def initial_state_def)
  with s'(1) h1 h2 h3 h4 show ?thesis by blast
qed


text \<open>
  C2. When the ledger store accepts every write, the items put to the ledger in a run
  are, in order and one for one, the resources the run destroyed (a volume delete, a
  snapshot delete or an address release that returned): same kind, same identifier.
  Each item is dated with the date its scan read and keyed by
  \<^verbatim>\<open>volume-\<close>, \<^verbatim>\<open>snapshot-\<close> or \<^verbatim>\<open>eip-\<close>, the identifier, and that date.
\<close>

theorem ledger_entry_per_destroyed_resource:
  assumes "\<And>h item. put_item aws h item = Returned ()"
  shows "map (\<lambda>item. (li_resource_type item, li_resource_id item))
           (ledger_puts (trace (run_cleanup aws dry_run)))
         = destroyed (trace (run_cleanup aws dry_run))
       \<and> list_all
           (\<lambda>item.
              li_resource_type item = ''ebs_volume''
                \<and> li_deleted_date item = isoformat (utc_today aws VolumeScan)
                \<and> li_deletion_id item = ''volume-'' @ li_resource_id item @ ''-'' @ li_deleted_date item
              \<or> li_resource_type item = ''snapshot''
                \<and> li_deleted_date item = isoformat (utc_today aws SnapshotScan)
                \<and> li_deletion_id item = ''snapshot-'' @ li_resource_id item @ ''-'' @ li_deleted_date item
              \<or> li_resource_type item = ''elastic_ip''
                \<and> li_deleted_date item = isoformat (utc_today aws AddressScan)
                \<and> li_deletion_id item = ''eip-'' @ li_resource_id item @ ''-'' @ li_deleted_date item)
           (ledger_puts (trace (run_cleanup aws dry_run)))"
proof -
  let ?s = "scan_expired aws dry_run"
  let ?l = "log_deletions_to_dynamodb aws ?s"
  let ?items = "map volume_item (volumes_deleted (results ?s))
              @ map snapshot_item (snapshots_deleted (results ?s))
              @ map eip_item (eips_released (results ?s))"
  define good where "good = (\<lambda>item :: ledger_item.
              li_resource_type item = ''ebs_volume''
                \<and> li_deleted_date item = isoformat (utc_today aws VolumeScan)
                \<and> li_deletion_id item = ''volume-'' @ li_resource_id item @ ''-'' @ li_deleted_date item
              \<or> li_resource_type item = ''snapshot''
                \<and> li_deleted_date item = isoformat (utc_today aws SnapshotScan)
                \<and> li_deletion_id item = ''snapshot-'' @ li_resource_id item @ ''-'' @ li_deleted_date item
              \<or> li_resource_type item = ''elastic_ip''
                \<and> li_deleted_date item = isoformat (utc_today aws AddressScan)
                \<and> li_deletion_id item = ''eip-'' @ li_resource_id item @ ''-'' @ li_deleted_date item)"
  have acc: "accounted aws ?s" by (rule accounted_scanned)
  define ok where "ok = (case publish aws (trace ?l) (cleanup_subject (results ?l))
                                 (cleanup_message (results ?l)) of
                            Returned x \<Rightarrow> True | Raised x \<Rightarrow> False)"
  have tr: "trace (run_cleanup aws dry_run) =
      (trace ?s @ map (\<lambda>item. (PutItem item, True)) ?items)
      @ [(Publish (cleanup_subject (results ?l)) (cleanup_message (results ?l)), ok)]"
    unfolding run_cleanup_def send_cleanup_report_trace ok_def
    by (simp only: log_deletions_accepted(1) [OF assms])
  have "ledger_puts (trace ?s) = []" using acc by (simp add: accounted_def)
  then have puts: "ledger_puts (trace (run_cleanup aws dry_run)) = ?items"
    unfolding tr by (simp only: ledger_puts_append ledger_puts_map_PutItem ledger_puts_Cons
        ledger_puts_Nil put_by.simps append_Nil append_Nil2)
  have dest: "destroyed (trace (run_cleanup aws dry_run)) = destroyed (trace ?s)"
    unfolding tr by (simp only: destroyed_append destroyed_map_PutItem destroyed_Cons
        destroyed_Nil destroyed_by.simps append_Nil append_Nil2)
  have keys: "map (\<lambda>item. (li_resource_type item, li_resource_id item)) ?items = destroyed (trace ?s)"
    using acc by (simp add: accounted_def volume_item_def snapshot_item_def eip_item_def comp_def)
  have gv: "\<And>d. dv_deleted_date d = isoformat (utc_today aws VolumeScan) \<Longrightarrow> good (volume_item d)"
    by (simp add: good_def volume_item_def)
  have gs: "\<And>d. ds_deleted_date d = isoformat (utc_today aws SnapshotScan) \<Longrightarrow> good (snapshot_item d)"
    by (simp add: good_def snapshot_item_def)
  have ge: "\<And>d. re_released_date d = isoformat (utc_today aws AddressScan) \<Longrightarrow> good (eip_item d)"
    by (simp add: good_def eip_item_def)
  have "list_all good (map volume_item (volumes_deleted (results ?s)))"
    using acc gv by (simp add: accounted_def list_all_iff)
  moreover have "list_all good (map snapshot_item (snapshots_deleted (results ?s)))"
    using acc gs by (simp add: accounted_def list_all_iff)
  moreover have "list_all good (map eip_item (eips_released (results ?s)))"
    using acc ge by (simp add: accounted_def list_all_iff)
  ultimately have "list_all good ?items" by simp
  then show ?thesis
    unfolding puts dest good_def using keys by simp
qed


theorem ledger_entry_per_destroyed_resource_witness:
  "map (\<lambda>item. (li_resource_type item, li_resource_id item))
     (ledger_puts (trace (run_cleanup example_aws False))) = [(''ebs_volume'', ''vol-1'')]
   \<and> destroyed (trace (run_cleanup example_aws False)) = [(''ebs_volume'', ''vol-1'')]
   \<and> list_all
        (\<lambda>item. li_deleted_date item = ''2025-02-01''
                \<and> li_deletion_id item = ''volume-'' @ li_resource_id item @ ''-2025-02-01'')
        (ledger_puts (trace (run_cleanup example_aws False)))"
proof -
  have accepts: "\<And>h item. put_item example_aws h item = Returned ()"
    by (simp add: example_aws_def)
  have d: "destroyed (trace (run_cleanup example_aws False)) = [(''ebs_volume'', ''vol-1'')]"
    by (simp add: run_cleanup_destroyed example_scan snapshot_request_def)
  have today: "\<And>k. isoformat (utc_today example_aws k) = ''2025-02-01''"
    by (simp add: example_aws_def example_today_iso)
  from ledger_entry_per_destroyed_resource [OF accepts, of False]
  show ?thesis
    unfolding d today by (auto simp: list_all_iff)
qed

text \<open>
  C3, as the code has it. A tagged volume whose deadline has expired and which is
  attached again is finished without any call: it joins \<^verbatim>\<open>volumes_skipped\<close> with the
  reason \<^verbatim>\<open>attached_to_instance\<close>, the "now attached" line is printed, and nothing joins
  the deleted lists. A tagged address whose deadline has expired and which is associated
  again is finished by printing the "now associated" line: no call, and no change to
  the results at all. The ledger of a run holds only resources whose delete or release
  call returned, so neither gets an entry.
\<close>

theorem in_use_resource_is_skipped:
  "(expired today (VolumeTags v) \<and> Attachments v \<noteq> [] \<and> fits_float (Size v) \<longrightarrow>
      (\<exists>s'. process_volume aws dry_run today v s = (None, s')
          \<and> trace s' = trace s
          \<and> volumes_skipped (results s') =
              volumes_skipped (results s)
              @ [\<lparr>sv_volume_id = VolumeId v, sv_reason = ''attached_to_instance''\<rparr>]
          \<and> same_deletions s s'
          \<and> stdout s' =
              stdout s @ map (InvalidDateFormat (VolumeId v)) (invalid_deadline_values (VolumeTags v))
              @ [SkippedNowAttached (VolumeId v)]))
   \<and> (expired today (AddressTags a) \<and> AssociationId a \<noteq> None \<longrightarrow>
        process_address aws dry_run today a s =
          printed (SkippedNowAssociated (AllocationId a) (PublicIp a)) s)
   \<and> set (map (\<lambda>item. (li_resource_type item, li_resource_id item))
            (ledger_puts (trace (run_cleanup aws dry_run))))
       \<subseteq> set (destroyed (trace (run_cleanup aws dry_run)))"
proof (intro conjI impI)
  assume a: "expired today (VolumeTags v) \<and> Attachments v \<noteq> [] \<and> fits_float (Size v)"
  then obtain c where "volume_cost (Size v) (VolumeType v) = Inr c"
    using fits_float_volume_cost by blast
  with a show "\<exists>s'. process_volume aws dry_run today v s = (None, s')
          \<and> trace s' = trace s
          \<and> volumes_skipped (results s') =
              volumes_skipped (results s)
              @ [\<lparr>sv_volume_id = VolumeId v, sv_reason = ''attached_to_instance''\<rparr>]
          \<and> same_deletions s s'
          \<and> stdout s' =
              stdout s @ map (InvalidDateFormat (VolumeId v)) (invalid_deadline_values (VolumeTags v))
              @ [SkippedNowAttached (VolumeId v)]"
    by (auto simp: process_volume_def Let_def expired_def same_deletions_def split: option.splits)
next
  assume "expired today (AddressTags a) \<and> AssociationId a \<noteq> None"
  then show "process_address aws dry_run today a s =
          printed (SkippedNowAssociated (AllocationId a) (PublicIp a)) s"
    by (auto simp: process_address_def expired_def split: option.splits)
next
  show "set (map (\<lambda>item. (li_resource_type item, li_resource_id item))
            (ledger_puts (trace (run_cleanup aws dry_run))))
       \<subseteq> set (destroyed (trace (run_cleanup aws dry_run)))"
    using run_cleanup_ledger_sound [of _ aws dry_run] by auto
qed

theorem in_use_resource_is_skipped_witness:
  "expired example_today (VolumeTags attached_volume) \<and> Attachments attached_volume \<noteq> []
   \<and> fits_float (Size attached_volume)
   \<and> (\<exists>s'. process_volume example_aws False example_today attached_volume initial_state = (None, s')
          \<and> trace s' = []
          \<and> volumes_skipped (results s') =
               [\<lparr>sv_volume_id = ''vol-2'', sv_reason = ''attached_to_instance''\<rparr>]
          \<and> stdout s' = [SkippedNowAttached ''vol-2''])
   \<and> expired example_today (AddressTags associated_address)
   \<and> AssociationId associated_address \<noteq> None
   \<and> process_address example_aws False example_today associated_address initial_state =
       printed (SkippedNowAssociated ''eipalloc-1'' ''203.0.113.7'') initial_state"
proof -
  have h1: "expired example_today (VolumeTags attached_volume) \<and> Attachments attached_volume \<noteq> []
            \<and> fits_float (Size attached_volume)"
    by (simp add: attached_volume_def fits_float_small)
  have h2: "expired example_today (AddressTags associated_address)
            \<and> AssociationId associated_address \<noteq> None"
    by (simp add: associated_address_def)
  note inst = in_use_resource_is_skipped [of example_today attached_volume example_aws False
      initial_state associated_address]
  from inst h1 obtain s' where
    s': "process_volume example_aws False example_today attached_volume initial_state = (None, s')"
      "trace s' = trace initial_state"
      "volumes_skipped (results s') =
         volumes_skipped (results initial_state)
         @ [\<lparr>sv_volume_id = VolumeId attached_volume, sv_reason = ''attached_to_instance''\<rparr>]"
      "stdout s' =
         stdout initial_state
         @ map (InvalidDateFormat (VolumeId attached_volume))
             (invalid_deadline_values (VolumeTags attached_volume))
         @ [SkippedNowAttached (VolumeId attached_volume)]"
    by blast
  have a: "trace s' = []"
    "volumes_skipped (results s') = [\<lparr>sv_volume_id = ''vol-2'', sv_reason = ''attached_to_instance''\<rparr>]"
    "stdout s' = [SkippedNowAttached ''vol-2'']"
    using s'(2,3,4) by (simp_all add: attached_volume_def initial_state_def)
  from inst h2 have b: "process_address example_aws False example_today associated_address initial_state =
       printed (SkippedNowAssociated (AllocationId associated_address) (PublicIp associated_address))
         initial_state"
    by blast
  then have b': "process_address example_aws False example_today associated_address initial_state =
       printed (SkippedNowAssociated ''eipalloc-1'' ''203.0.113.7'') initial_state"
    by (simp add: associated_address_def)
  from h1 h2 s'(1) a b' show ?thesis by blast
qed

text \<open>
  The reason the claim quotes is not what the run records: in the example account the
  re-attached volume is skipped with \<^verbatim>\<open>attached_to_instance\<close>, and the re-associated
  address, although skipped, appears in no skip list.
\<close>

theorem in_use_reason_counterexample:
  "expired example_today (VolumeTags attached_volume) \<and> Attachments attached_volume \<noteq> []
   \<and> expired example_today (AddressTags associated_address)
   \<and> AssociationId associated_address \<noteq> None
   \<and> \<lparr>sv_volume_id = ''vol-2'', sv_reason = ''now in use''\<rparr>
        \<notin> set (volumes_skipped (results (run_cleanup example_aws False)))
   \<and> volumes_skipped (results (run_cleanup example_aws False)) =
        [\<lparr>sv_volume_id = ''vol-2'', sv_reason = ''attached_to_instance''\<rparr>]
   \<and> snapshots_skipped (results (run_cleanup example_aws False)) = []"
  by (simp add: run_cleanup_def example_scan attached_volume_def associated_address_def)


text \<open>
  C5. With the dry-run toggle on, the calls of a run are exactly the three describe
  calls and the publication of the report, which is the "no expired resources" message
  with subject \<^verbatim>\<open>Cleanup: $0.00/mo saved\<close>: no snapshot is created, nothing is deleted or
  released, nothing is put to the ledger, and the handler reports zero deletions and zero
  savings. The scan still parses the tags and re-validates: when the volume listing
  returns and every size converts to a float, the volumes skipped are the expired ones
  that are attached, and an expired unattached volume gets its "would delete" line.
\<close>

theorem dry_run_changes_nothing:
  "(\<exists>ok1 ok2 ok3 ok4.
      trace (run_cleanup aws True) =
        [(DescribeVolumes, ok1), (DescribeSnapshots, ok2), (DescribeAddresses, ok3),
         (Publish ''Cleanup: $0.00/mo saved''
            ''AWS Cleanup: No expired resources found. All tagged resources still in grace period.'',
          ok4)])
   \<and> list_all (\<lambda>e. \<not> mutating (fst e)) (trace (run_cleanup aws True))
   \<and> ledger_puts (trace (run_cleanup aws True)) = []
   \<and> destroyed (trace (run_cleanup aws True)) = []
   \<and> cleanup_lambda_handler aws True = \<lparr>statusCode = 200, deleted_count = 0, savings = Finite 0\<rparr>
   \<and> (describe_volumes aws [] = Returned vs \<and> list_all (\<lambda>v. fits_float (Size v)) vs \<longrightarrow>
        volumes_skipped (results (run_cleanup aws True)) =
          map (\<lambda>v. \<lparr>sv_volume_id = VolumeId v, sv_reason = ''attached_to_instance''\<rparr>)
            (filter (\<lambda>v. expired (utc_today aws VolumeScan) (VolumeTags v) \<and> Attachments v \<noteq> []) vs))
   \<and> (expired today (VolumeTags v) \<and> Attachments v = []
        \<and> volume_cost (Size v) (VolumeType v) = Inr monthly_cost \<longrightarrow>
        process_volume aws True today v s =
          (None,
           printed (DryRunWouldDeleteVolume (VolumeId v) (Size v) (VolumeType v) monthly_cost)
             (s\<lparr>stdout := stdout s
                   @ map (InvalidDateFormat (VolumeId v)) (invalid_deadline_values (VolumeTags v))\<rparr>)))"
proof -
  let ?s = "scan_expired aws True"
  let ?l = "log_deletions_to_dynamodb aws ?s"
  note same = dry_scan(2) [of aws, unfolded same_deletions_def]
  have none: "volumes_deleted (results ?s) = []" "snapshots_deleted (results ?s) = []"
    "eips_released (results ?s) = []" "total_savings_monthly (results ?s) = Finite 0"
    using same by (simp_all add: initial_state_def)
  have tl: "trace ?l = trace ?s"
    using none by (simp add: log_nothing)
  have msg: "cleanup_message (results ?l) =
      ''AWS Cleanup: No expired resources found. All tagged resources still in grace period.''"
    using none by (simp add: nothing_deleted_message)
  have subj: "cleanup_subject (results ?l) = ''Cleanup: $0.00/mo saved''"
    using none by (simp add: cleanup_subject_def del: format_2f.simps)
  have tr: "trace (run_cleanup aws True) =
      trace ?s @ [(Publish ''Cleanup: $0.00/mo saved''
            ''AWS Cleanup: No expired resources found. All tagged resources still in grace period.'',
          returned (publish aws (trace ?s) ''Cleanup: $0.00/mo saved''
            ''AWS Cleanup: No expired resources found. All tagged resources still in grace period.''))]"
    unfolding run_cleanup_def send_cleanup_report_trace msg subj tl
    by (simp add: returned_def)
  have c1: "\<exists>ok1 ok2 ok3 ok4.
      trace (run_cleanup aws True) =
        [(DescribeVolumes, ok1), (DescribeSnapshots, ok2), (DescribeAddresses, ok3),
         (Publish ''Cleanup: $0.00/mo saved''
            ''AWS Cleanup: No expired resources found. All tagged resources still in grace period.'',
          ok4)]"
    unfolding tr dry_scan(1) by simp
  then obtain ok1 ok2 ok3 ok4 where shape: "trace (run_cleanup aws True) =
        [(DescribeVolumes, ok1), (DescribeSnapshots, ok2), (DescribeAddresses, ok3),
         (Publish ''Cleanup: $0.00/mo saved''
            ''AWS Cleanup: No expired resources found. All tagged resources still in grace period.'',
          ok4)]"
    by blast
  have c2: "list_all (\<lambda>e. \<not> mutating (fst e)) (trace (run_cleanup aws True))"
    unfolding shape by simp
  have c3: "ledger_puts (trace (run_cleanup aws True)) = []"
    unfolding shape by simp
  have c4: "destroyed (trace (run_cleanup aws True)) = []"
    unfolding shape by simp
  have res: "results (run_cleanup aws True) = results ?s"
    by (simp add: run_cleanup_def)
  have c5: "cleanup_lambda_handler aws True = \<lparr>statusCode = 200, deleted_count = 0, savings = Finite 0\<rparr>"
    by (simp add: cleanup_lambda_handler_def res none)
  have c6: "describe_volumes aws [] = Returned vs \<and> list_all (\<lambda>v. fits_float (Size v)) vs \<longrightarrow>
        volumes_skipped (results (run_cleanup aws True)) =
          map (\<lambda>v. \<lparr>sv_volume_id = VolumeId v, sv_reason = ''attached_to_instance''\<rparr>)
            (filter (\<lambda>v. expired (utc_today aws VolumeScan) (VolumeTags v) \<and> Attachments v \<noteq> []) vs)"
  proof
    assume a: "describe_volumes aws [] = Returned vs \<and> list_all (\<lambda>v. fits_float (Size v)) vs"
    then have "describe_volumes aws (trace initial_state) = Returned vs"
      by (simp add: initial_state_def)
    from cleanup_expired_volumes_dry_skipped [OF this] a
    show "volumes_skipped (results (run_cleanup aws True)) =
          map (\<lambda>v. \<lparr>sv_volume_id = VolumeId v, sv_reason = ''attached_to_instance''\<rparr>)
            (filter (\<lambda>v. expired (utc_today aws VolumeScan) (VolumeTags v) \<and> Attachments v \<noteq> []) vs)"
      by (simp add: res dry_scan(3) initial_state_def)
  qed
  have c7: "expired today (VolumeTags v) \<and> Attachments v = []
        \<and> volume_cost (Size v) (VolumeType v) = Inr monthly_cost \<longrightarrow>
        process_volume aws True today v s =
          (None,
           printed (DryRunWouldDeleteVolume (VolumeId v) (Size v) (VolumeType v) monthly_cost)
             (s\<lparr>stdout := stdout s
                   @ map (InvalidDateFormat (VolumeId v)) (invalid_deadline_values (VolumeTags v))\<rparr>))"
    by (auto simp: process_volume_def delete_the_volume_def Let_def expired_def split: option.splits)
  from c1 c2 c3 c4 c5 c6 c7 show ?thesis by blast
qed

theorem dry_run_changes_nothing_witness:
  "describe_volumes example_aws [] = Returned [idle_volume, attached_volume]
   \<and> list_all (\<lambda>v. fits_float (Size v)) [idle_volume, attached_volume]
   \<and> volumes_skipped (results (run_cleanup example_aws True)) =
       [\<lparr>sv_volume_id = ''vol-2'', sv_reason = ''attached_to_instance''\<rparr>]
   \<and> expired example_today (VolumeTags idle_volume) \<and> Attachments idle_volume = []
   \<and> volume_cost (Size idle_volume) (VolumeType idle_volume) = Inr (fmul (Finite 8) (dec 114 3))
   \<and> process_volume example_aws True example_today idle_volume initial_state =
       (None, printed (DryRunWouldDeleteVolume ''vol-1'' 8 ''gp2'' (fmul (Finite 8) (dec 114 3)))
                initial_state)"
proof -
  have h1: "describe_volumes example_aws [] = Returned [idle_volume, attached_volume]"
    by (simp add: example_aws_def)
  have h2: "list_all (\<lambda>v. fits_float (Size v)) [idle_volume, attached_volume]"
    by (simp add: idle_volume_def attached_volume_def fits_float_small)
  have h3: "expired example_today (VolumeTags idle_volume)" "Attachments idle_volume = []"
    "volume_cost (Size idle_volume) (VolumeType idle_volume) = Inr (fmul (Finite 8) (dec 114 3))"
    by (simp_all add: idle_volume_def volume_cost_8)
  have today: "utc_today example_aws VolumeScan = example_today"
    by (simp add: example_aws_def)
  note inst = dry_run_changes_nothing [of example_aws "[idle_volume, attached_volume]" example_today
      idle_volume "fmul (Finite 8) (dec 114 3)" initial_state]
  from inst h1 h2 have "volumes_skipped (results (run_cleanup example_aws True)) =
          map (\<lambda>v. \<lparr>sv_volume_id = VolumeId v, sv_reason = ''attached_to_instance''\<rparr>)
            (filter (\<lambda>v. expired (utc_today example_aws VolumeScan) (VolumeTags v) \<and> Attachments v \<noteq> [])
               [idle_volume, attached_volume])"
    by blast
  then have a: "volumes_skipped (results (run_cleanup example_aws True)) =
       [\<lparr>sv_volume_id = ''vol-2'', sv_reason = ''attached_to_instance''\<rparr>]"
    by (simp add: today idle_volume_def attached_volume_def)
  from inst h3 have "process_volume example_aws True example_today idle_volume initial_state =
          (None,
           printed (DryRunWouldDeleteVolume (VolumeId idle_volume) (Size idle_volume)
                      (VolumeType idle_volume) (fmul (Finite 8) (dec 114 3)))
             (initial_state\<lparr>stdout := stdout initial_state
                   @ map (InvalidDateFormat (VolumeId idle_volume))
                       (invalid_deadline_values (VolumeTags idle_volume))\<rparr>))"
    by blast
  then have b: "process_volume example_aws True example_today idle_volume initial_state =
       (None, printed (DryRunWouldDeleteVolume ''vol-1'' 8 ''gp2'' (fmul (Finite 8) (dec 114 3)))
                initial_state)"
    by (simp add: idle_volume_def initial_state_def)
  from h1 h2 h3 a b show ?thesis by blast
qed


section \<open>The Finder\<close>

subsection \<open>Unattached volumes\<close>

lemma volume_cost_fits:
  "fits_float n \<Longrightarrow> \<exists>x. float_of_int n = Inr x \<and> volume_cost n t = Inr (fmul x (price_of t))"
  by (auto simp: fits_float_def volume_cost_def split: sum.splits)

lemma unattached_loop_findings:
  assumes "list_all (\<lambda>v. fits_float (Size v)) (filter (\<lambda>v. Attachments v = []) vols)"
  shows "\<exists>found. unattached_loop vols acc = Inr (acc @ found)
           \<and> list_all2
                (\<lambda>f v. \<exists>x. float_of_int (Size v) = Inr x
                         \<and> f = unattached_finding v (fmul x (price_of (VolumeType v))))
                found (filter (\<lambda>v. Attachments v = []) vols)"
  using assms
proof (induction vols arbitrary: acc)
  case Nil
  then show ?case by simp
next
  case (Cons v vols)
  show ?case
  proof (cases "Attachments v = []")
    case False
    with Cons.prems have "list_all (\<lambda>v. fits_float (Size v)) (filter (\<lambda>v. Attachments v = []) vols)"
      by simp
    from Cons.IH [OF this, of acc] False show ?thesis by simp
  next
    case True
    with Cons.prems have fit: "fits_float (Size v)"
      and rest: "list_all (\<lambda>v. fits_float (Size v)) (filter (\<lambda>v. Attachments v = []) vols)"
      by simp_all
    from volume_cost_fits [OF fit] obtain x where x: "float_of_int (Size v) = Inr x"
      "volume_cost (Size v) (VolumeType v) = Inr (fmul x (price_of (VolumeType v)))"
      by blast
    let ?f = "unattached_finding v (fmul x (price_of (VolumeType v)))"
    from Cons.IH [OF rest, of "acc @ [?f]"]
    obtain found where found: "unattached_loop vols (acc @ [?f]) = Inr ((acc @ [?f]) @ found)"
      "list_all2
         (\<lambda>f v. \<exists>x. float_of_int (Size v) = Inr x
                  \<and> f = unattached_finding v (fmul x (price_of (VolumeType v))))
         found (filter (\<lambda>v. Attachments v = []) vols)"
      by blast
    have "unattached_loop (v # vols) acc = Inr (acc @ (?f # found))"
      using True x(2) found(1) by simp
    moreover have "list_all2
         (\<lambda>f v. \<exists>x. float_of_int (Size v) = Inr x
                  \<and> f = unattached_finding v (fmul x (price_of (VolumeType v))))
         (?f # found) (filter (\<lambda>v. Attachments v = []) (v # vols))"
      using True x(1) found(2) by simp
    ultimately show ?thesis by blast
  qed
qed

lemma price_table:
  "price_of ''gp2'' = dec 114 3" "price_of ''gp3'' = dec 91 3" "price_of ''io1'' = dec 143 3"
  "price_of ''io2'' = dec 143 3" "price_of ''sc1'' = dec 29 3" "price_of ''st1'' = dec 51 3"
  "price_of ''standard'' = dec 57 3"
  "volume_type \<notin> set [''gp2'', ''gp3'', ''io1'', ''io2'', ''sc1'', ''st1'', ''standard'']
     \<Longrightarrow> price_of volume_type = dec 10 2"
  by (simp_all add: price_of_def price_per_gb_def)


lemma rnd_0_091: "rnd (91 / 1000) = Finite (3278620528725721 / 36028797018963968)"
  using rnd_eqI [of "- 4" "91 / 1000" "6557241057451442"] round_half_even_eqI [of "91 / 1000 / pow2 (-4 - 52)" "6557241057451442"]
  by (simp add: pow2_def)

lemma rnd_5_gp3: "rnd (16393102643628605 / 36028797018963968) = Finite (4098275660907151 / 9007199254740992)"
  using rnd_eqI [of "- 2" "16393102643628605 / 36028797018963968" "8196551321814302"] round_half_even_tie_down [of "16393102643628605 / 36028797018963968 / pow2 (-2 - 52)" "8196551321814302"]
  by (simp add: pow2_def)

lemma cents_5_gp3: "round_half_even (102456891522678775 / 2251799813685248) = 45"
  using round_half_even_eqI [of "102456891522678775 / 2251799813685248" "45"] by simp

lemma rnd_0_45: "rnd (9 / 20) = Finite (8106479329266893 / 18014398509481984)"
  using rnd_eqI [of "- 2" "9 / 20" "8106479329266893"] round_half_even_eqI [of "9 / 20 / pow2 (-2 - 52)" "8106479329266893"]
  by (simp add: pow2_def)

lemma cost_5_gp3: "py_round (fmul (Finite 5) (dec 91 3)) 2 = dec 45 2"
  by (simp add: dec_def rnd_0_091 rnd_5_gp3 cents_5_gp3 rnd_0_45)

text \<open>
  C6. When the volume listing returns and the sizes of the unattached volumes convert to
  floats, the findings are, in order, one for each volume with no attachment and none
  for any other: each carries the volume's identifier, size and type, and as monthly
  cost the float product of the size and the rate of its type, rounded to two places by
  \<^verbatim>\<open>round\<close>. The rates are 0.114 (gp2), 0.091 (gp3), 0.143 (io1, io2), 0.029 (sc1), 0.051
  (st1), 0.057 (standard) and 0.10 for any other type. A size from 0 to below \<open>2^53\<close>
  converts exactly.
\<close>

theorem unattached_volume_findings:
  assumes "all_volumes aws tr = Returned vols"
    and "list_all (\<lambda>v. fits_float (Size v)) (filter (\<lambda>v. Attachments v = []) vols)"
  shows "list_all2
           (\<lambda>f v. uv_resource_type f = ''ebs_volume'' \<and> uv_resource_id f = VolumeId v
                  \<and> uv_size_gb f = Size v \<and> uv_volume_type f = VolumeType v
                  \<and> (\<exists>x. float_of_int (Size v) = Inr x
                          \<and> uv_monthly_cost f = py_round (fmul x (price_of (VolumeType v))) 2))
           (fst (find_unattached_volumes aws tr)) (filter (\<lambda>v. Attachments v = []) vols)
       \<and> price_of ''gp2'' = dec 114 3 \<and> price_of ''gp3'' = dec 91 3
       \<and> price_of ''io1'' = dec 143 3 \<and> price_of ''io2'' = dec 143 3
       \<and> price_of ''sc1'' = dec 29 3 \<and> price_of ''st1'' = dec 51 3
       \<and> price_of ''standard'' = dec 57 3
       \<and> (volume_type \<notin> set [''gp2'', ''gp3'', ''io1'', ''io2'', ''sc1'', ''st1'', ''standard'']
            \<longrightarrow> price_of volume_type = dec 10 2)
       \<and> (0 \<le> n \<and> n < 2 ^ 53 \<longrightarrow> float_of_int n = Inr (Finite (of_int n)))"
proof -
  from unattached_loop_findings [OF assms(2), of "[]"]
  obtain found where found: "unattached_loop vols [] = Inr found"
    and all: "list_all2
                (\<lambda>f v. \<exists>x. float_of_int (Size v) = Inr x
                         \<and> f = unattached_finding v (fmul x (price_of (VolumeType v))))
                found (filter (\<lambda>v. Attachments v = []) vols)"
    by auto
  have "fst (find_unattached_volumes aws tr) = found"
    by (simp add: find_unattached_volumes_def assms(1) found)
  moreover from all have "list_all2
           (\<lambda>f v. uv_resource_type f = ''ebs_volume'' \<and> uv_resource_id f = VolumeId v
                  \<and> uv_size_gb f = Size v \<and> uv_volume_type f = VolumeType v
                  \<and> (\<exists>x. float_of_int (Size v) = Inr x
                          \<and> uv_monthly_cost f = py_round (fmul x (price_of (VolumeType v))) 2))
           found (filter (\<lambda>v. Attachments v = []) vols)"
    by (rule list_all2_mono) (auto simp: unattached_finding_def)
  ultimately show ?thesis
    using price_table float_of_int_small by simp
qed

theorem unattached_volume_findings_witness:
  "all_volumes example_finder_aws [] = Returned [small_volume, attached_volume]
   \<and> list_all (\<lambda>v. fits_float (Size v))
        (filter (\<lambda>v. Attachments v = []) [small_volume, attached_volume])
   \<and> map uv_resource_id (fst (find_unattached_volumes example_finder_aws [])) = [''vol-5'']
   \<and> map uv_monthly_cost (fst (find_unattached_volumes example_finder_aws [])) = [dec 45 2]"
proof -
  have h1: "all_volumes example_finder_aws [] = Returned [small_volume, attached_volume]"
    by (simp add: example_finder_aws_def)
  have h2: "list_all (\<lambda>v. fits_float (Size v))
        (filter (\<lambda>v. Attachments v = []) [small_volume, attached_volume])"
    by (simp add: small_volume_def attached_volume_def fits_float_small)
  have f: "filter (\<lambda>v. Attachments v = []) [small_volume, attached_volume] = [small_volume]"
    by (simp add: small_volume_def attached_volume_def)
  from unattached_volume_findings [OF h1 h2, THEN conjunct1]
  obtain g where g: "fst (find_unattached_volumes example_finder_aws []) = [g]"
    "uv_resource_id g = VolumeId small_volume"
    "\<exists>x. float_of_int (Size small_volume) = Inr x
         \<and> uv_monthly_cost g = py_round (fmul x (price_of (VolumeType small_volume))) 2"
    unfolding f by (auto simp: list_all2_Cons2)
  from g(3) have "uv_monthly_cost g = dec 45 2"
    by (auto simp: small_volume_def float_of_int_small cost_5_gp3 simp del: py_round.simps fmul.simps)
  with g(1,2) h1 h2 show ?thesis
    by (simp add: small_volume_def)
qed


subsection \<open>Old snapshots\<close>

lemma snapshot_cost_fits: "fits_float n \<Longrightarrow> \<exists>c. snapshot_cost n = Inr c"
  by (auto simp: fits_float_def snapshot_cost_def split: sum.splits)

lemma upt_from_first: "[k..<k + Suc n] = k # [Suc k..<Suc k + n]"
  by (subst upt_conv_Cons) simp_all

lemma old_snapshots_loop_findings:
  assumes "list_all (\<lambda>s. fits_float (VolumeSize s)) (filter (\<lambda>s. StartTime s < th) snaps)"
  shows "\<exists>found. old_snapshots_loop aws th snaps k acc = Inr (acc @ found)
           \<and> list_all2
                (\<lambda>f (j, s). os_resource_type f = ''snapshot'' \<and> os_resource_id f = SnapshotId s
                           \<and> os_snapshot_id f = SnapshotId s
                           \<and> os_age_days f = (utc_now aws j - StartTime s) div microseconds_per_day)
                found
                (zip [k..<k + length (filter (\<lambda>s. StartTime s < th) snaps)]
                   (filter (\<lambda>s. StartTime s < th) snaps))"
  using assms
proof (induction snaps arbitrary: k acc)
  case Nil
  then show ?case by simp
next
  case (Cons s snaps)
  let ?inc = "filter (\<lambda>s. StartTime s < th) snaps"
  show ?case
  proof (cases "StartTime s < th")
    case False
    with Cons.prems have "list_all (\<lambda>s. fits_float (VolumeSize s)) ?inc" by simp
    from Cons.IH [OF this, of k acc] False show ?thesis by simp
  next
    case True
    with Cons.prems have fit: "fits_float (VolumeSize s)"
      and rest: "list_all (\<lambda>s. fits_float (VolumeSize s)) ?inc"
      by simp_all
    from snapshot_cost_fits [OF fit] obtain c where c: "snapshot_cost (VolumeSize s) = Inr c"
      by blast
    define f where "f =
      \<lparr>os_resource_type = ''snapshot'', os_resource_id = SnapshotId s,
       os_snapshot_id = SnapshotId s, os_size_gb = VolumeSize s,
       os_monthly_cost = py_round c 2,
       os_age_days = (utc_now aws k - StartTime s) div microseconds_per_day,
       os_start_time = StartTime s,
       os_description = (case Description s of None \<Rightarrow> ''No description'' | Some text \<Rightarrow> text),
       os_tags = SnapshotTags s\<rparr>"
    from Cons.IH [OF rest, of "Suc k" "acc @ [f]"]
    obtain found where found: "old_snapshots_loop aws th snaps (Suc k) (acc @ [f]) = Inr ((acc @ [f]) @ found)"
      "list_all2
         (\<lambda>f (j, s). os_resource_type f = ''snapshot'' \<and> os_resource_id f = SnapshotId s
                    \<and> os_snapshot_id f = SnapshotId s
                    \<and> os_age_days f = (utc_now aws j - StartTime s) div microseconds_per_day)
         found (zip [Suc k..<Suc k + length ?inc] ?inc)"
      by blast
    have "old_snapshots_loop aws th (s # snaps) k acc = Inr (acc @ (f # found))"
      using True c found(1) by (simp add: f_def)
    moreover have "[k..<k + length (filter (\<lambda>s. StartTime s < th) (s # snaps))]
                   = k # [Suc k..<Suc k + length ?inc]"
      using True upt_from_first [of k "length ?inc"] by simp
    then have "list_all2
         (\<lambda>f (j, s). os_resource_type f = ''snapshot'' \<and> os_resource_id f = SnapshotId s
                    \<and> os_snapshot_id f = SnapshotId s
                    \<and> os_age_days f = (utc_now aws j - StartTime s) div microseconds_per_day)
         (f # found)
         (zip [k..<k + length (filter (\<lambda>s. StartTime s < th) (s # snaps))]
            (filter (\<lambda>s. StartTime s < th) (s # snaps)))"
      using True found(2) by (simp add: f_def)
    ultimately show ?thesis by blast
  qed
qed

lemma age_at_least_threshold:
  assumes "start < now0 - 90 * microseconds_per_day" and "now0 \<le> now"
  shows "90 \<le> (now - start) div microseconds_per_day"
proof -
  have "90 * microseconds_per_day \<le> now - start" using assms by linarith
  then have "90 * microseconds_per_day div microseconds_per_day \<le> (now - start) div microseconds_per_day"
    by (rule zdiv_mono1) (simp add: microseconds_per_day_def)
  then show ?thesis by (simp add: microseconds_per_day_def)
qed


text \<open>
  C7. When the snapshot listing returns and the sizes of the old snapshots convert to
  floats, the findings are, in order, one for each snapshot whose start time is strictly
  before the first clock reading minus 90 days, and none for any other; a start time
  exactly 90 days before that reading is not among them. The age of the \<open>j\<close>-th
  finding is the whole number of days (integer division, which rounds down) from the
  start time to the clock reading taken for it, the \<open>j\<close>-th after the first. If no
  reading is earlier than the first, every age is at least 90.
\<close>

theorem old_snapshot_findings:
  assumes "own_snapshots aws tr = Returned snaps"
    and "list_all (\<lambda>s. fits_float (VolumeSize s))
           (filter (\<lambda>s. StartTime s < utc_now aws 0 - 90 * microseconds_per_day) snaps)"
  shows "(let old = filter (\<lambda>s. StartTime s < utc_now aws 0 - 90 * microseconds_per_day) snaps;
              found = fst (find_old_snapshots aws tr)
          in list_all2
               (\<lambda>f (j, s). os_resource_id f = SnapshotId s
                          \<and> os_age_days f = (utc_now aws j - StartTime s) div microseconds_per_day)
               found (zip [1..<1 + length old] old)
             \<and> list_all (\<lambda>s. StartTime s \<noteq> utc_now aws 0 - 90 * microseconds_per_day) old
             \<and> ((\<forall>j. utc_now aws 0 \<le> utc_now aws j) \<longrightarrow> list_all (\<lambda>f. 90 \<le> os_age_days f) found))"
proof -
  define th where "th = utc_now aws 0 - 90 * microseconds_per_day"
  define old where "old = filter (\<lambda>s. StartTime s < th) snaps"
  define found where "found = fst (find_old_snapshots aws tr)"
  from old_snapshots_loop_findings [of th snaps aws 1 "[]"] assms(2)
  obtain found' where loop: "old_snapshots_loop aws th snaps 1 [] = Inr found'"
    and all': "list_all2
                (\<lambda>f (j, s). os_resource_type f = ''snapshot'' \<and> os_resource_id f = SnapshotId s
                           \<and> os_snapshot_id f = SnapshotId s
                           \<and> os_age_days f = (utc_now aws j - StartTime s) div microseconds_per_day)
                found' (zip [1..<1 + length old] old)"
    unfolding th_def old_def by auto
  have "found = found'"
    using loop by (simp add: found_def find_old_snapshots_def assms(1) th_def
        SNAPSHOT_AGE_THRESHOLD_DAYS_def)
  with all' have all: "list_all2
               (\<lambda>f (j, s). os_resource_id f = SnapshotId s
                          \<and> os_age_days f = (utc_now aws j - StartTime s) div microseconds_per_day)
               found (zip [1..<1 + length old] old)"
    by (auto elim!: list_all2_mono)
  have strict: "list_all (\<lambda>s. StartTime s \<noteq> th) old"
    by (auto simp: old_def list_all_iff)
  have ages: "(\<forall>j. utc_now aws 0 \<le> utc_now aws j) \<longrightarrow> list_all (\<lambda>f. 90 \<le> os_age_days f) found"
  proof
    assume mono: "\<forall>j. utc_now aws 0 \<le> utc_now aws j"
    show "list_all (\<lambda>f. 90 \<le> os_age_days f) found"
      unfolding list_all_iff
    proof
      fix f
      assume "f \<in> set found"
      then obtain i where i: "i < length found" "found ! i = f"
        by (auto simp: in_set_conv_nth)
      from all have len: "length found = length (zip [1..<1 + length old] old)"
        by (rule list_all2_lengthD)
      obtain j s where js: "zip [1..<1 + length old] old ! i = (j, s)" by force
      from all i(1) js have age: "os_age_days (found ! i) = (utc_now aws j - StartTime s) div microseconds_per_day"
        by (auto dest: list_all2_nthD)
      from i(1) len js have "(j, s) \<in> set (zip [1..<1 + length old] old)"
        by (metis nth_mem)
      then have "s \<in> set old" by (rule set_zip_rightD)
      then have "StartTime s < utc_now aws 0 - 90 * microseconds_per_day"
        by (simp add: old_def th_def)
      from age_at_least_threshold [OF this] mono age i(2) show "90 \<le> os_age_days f"
        by simp
    qed
  qed
  from all strict ages show ?thesis
    unfolding Let_def old_def [symmetric, unfolded th_def] found_def [symmetric] th_def [symmetric]
    by (simp add: old_def th_def found_def)
qed

theorem old_snapshot_findings_witness:
  "own_snapshots example_finder_aws [] = Returned [old_snap, boundary_snap]
   \<and> list_all (\<lambda>s. fits_float (VolumeSize s))
        (filter (\<lambda>s. StartTime s < utc_now example_finder_aws 0 - 90 * microseconds_per_day)
           [old_snap, boundary_snap])
   \<and> (\<forall>j. utc_now example_finder_aws 0 \<le> utc_now example_finder_aws j)
   \<and> map os_resource_id (fst (find_old_snapshots example_finder_aws [])) = [''snap-old'']
   \<and> map os_age_days (fst (find_old_snapshots example_finder_aws [])) = [90]"
proof -
  have h1: "own_snapshots example_finder_aws [] = Returned [old_snap, boundary_snap]"
    by (simp add: example_finder_aws_def)
  have old: "filter (\<lambda>s. StartTime s < utc_now example_finder_aws 0 - 90 * microseconds_per_day)
           [old_snap, boundary_snap] = [old_snap]"
    by (simp add: example_finder_aws_def old_snap_def boundary_snap_def microseconds_per_day_def)
  have h2: "list_all (\<lambda>s. fits_float (VolumeSize s))
        (filter (\<lambda>s. StartTime s < utc_now example_finder_aws 0 - 90 * microseconds_per_day)
           [old_snap, boundary_snap])"
    unfolding old by (simp add: old_snap_def fits_float_small)
  have h3: "\<forall>j. utc_now example_finder_aws 0 \<le> utc_now example_finder_aws j"
    by (simp add: example_finder_aws_def)
  from old_snapshot_findings [OF h1 h2, unfolded Let_def old, THEN conjunct1]
  obtain g where g: "fst (find_old_snapshots example_finder_aws []) = [g]"
    "os_resource_id g = SnapshotId old_snap"
    "os_age_days g = (utc_now example_finder_aws 1 - StartTime old_snap) div microseconds_per_day"
    by (auto simp: list_all2_Cons2)
  from g(3) have "os_age_days g = 90"
    by (simp add: example_finder_aws_def old_snap_def microseconds_per_day_def)
  with g(1,2) h1 h2 h3 show ?thesis
    by (simp add: old_snap_def)
qed


subsection \<open>The tag writes of a Finder run\<close>

lemma tag_writes_Nil [simp]: "tag_writes [] = []"
  by (simp add: tag_writes_def)

lemma tag_writes_append [simp]: "tag_writes (a @ b) = tag_writes a @ tag_writes b"
  by (simp add: tag_writes_def)























section \<open>The ledger reader\<close>

text \<open>
  C9. On an empty ledger the handler answers with status 200 (no exception reaches the
  wrapper): zero resources, zero monthly and annual savings, every per-kind count zero,
  zero days operating, zero average per day, and \<^verbatim>\<open>'N/A'\<close> for both dates.
\<close>

theorem empty_ledger_report:
  "query_lambda_handler (Returned []) =
     Status200
       \<lparr>total_resources_deleted = 0,
        total_monthly_savings = Finite 0,
        total_annual_savings = Finite 0,
        resource_breakdown = [(''ebs_volume'', 0), (''snapshot'', 0), (''elastic_ip'', 0)],
        first_deletion_date = ''N/A'',
        last_deletion_date = ''N/A'',
        days_operating = 0,
        average_savings_per_day = Finite 0\<rparr>"
  by (simp add: query_lambda_handler_def date_range_def average_per_day_def)

subsection \<open>The floats of the two-entry example\<close>

lemma rnd_5: "rnd (5) = Finite (5)"
  using rnd_eqI [of "2" "5" "5629499534213120"] round_half_even_eqI [of "5 / pow2 (2 - 52)" "5629499534213120"]
  by (simp add: pow2_def)

lemma rnd_3_6: "rnd (18 / 5) = Finite (8106479329266893 / 2251799813685248)"
  using rnd_eqI [of "1" "18 / 5" "8106479329266893"] round_half_even_eqI [of "18 / 5 / pow2 (1 - 52)" "8106479329266893"]
  by (simp add: pow2_def)

lemma rnd_5_plus_3_6: "rnd (19365478397693133 / 2251799813685248) = Finite (4841369599423283 / 562949953421312)"
  using rnd_eqI [of "3" "19365478397693133 / 2251799813685248" "4841369599423283"] round_half_even_eqI [of "19365478397693133 / 2251799813685248 / pow2 (3 - 52)" "4841369599423283"]
  by (simp add: pow2_def)

lemma cents_monthly: "round_half_even (121034239985582075 / 140737488355328) = 860"
  using round_half_even_eqI [of "121034239985582075 / 140737488355328" "860"] by simp

lemma rnd_8_6: "rnd (43 / 5) = Finite (4841369599423283 / 562949953421312)"
  using rnd_eqI [of "3" "43 / 5" "4841369599423283"] round_half_even_eqI [of "43 / 5 / pow2 (3 - 52)" "4841369599423283"]
  by (simp add: pow2_def)

lemma rnd_annual: "rnd (14524108798269849 / 140737488355328) = Finite (1815513599783731 / 17592186044416)"
  using rnd_eqI [of "6" "14524108798269849 / 140737488355328" "7262054399134924"] round_half_even_tie_down [of "14524108798269849 / 140737488355328 / pow2 (6 - 52)" "7262054399134924"]
  by (simp add: pow2_def)

lemma cents_annual: "round_half_even (45387839994593275 / 4398046511104) = 10320"
  using round_half_even_eqI [of "45387839994593275 / 4398046511104" "10320"] by simp

lemma rnd_103_2: "rnd (516 / 5) = Finite (7262054399134925 / 70368744177664)"
  using rnd_eqI [of "6" "516 / 5" "7262054399134925"] round_half_even_eqI [of "516 / 5 / pow2 (6 - 52)" "7262054399134925"]
  by (simp add: pow2_def)

lemma rnd_daily: "rnd (4841369599423283 / 16888498602639360) = Finite (5164127572718169 / 18014398509481984)"
  using rnd_eqI [of "- 2" "4841369599423283 / 16888498602639360" "5164127572718169"] round_half_even_eqI [of "4841369599423283 / 16888498602639360 / pow2 (-2 - 52)" "5164127572718169"]
  by (simp add: pow2_def)

lemma cents_daily: "round_half_even (129103189317954225 / 4503599627370496) = 29"
  using round_half_even_eqI [of "129103189317954225 / 4503599627370496" "29"] by simp

lemma rnd_0_29: "rnd (29 / 100) = Finite (5224175567749775 / 18014398509481984)"
  using rnd_eqI [of "- 2" "29 / 100" "5224175567749775"] round_half_even_eqI [of "29 / 100 / pow2 (-2 - 52)" "5224175567749775"]
  by (simp add: pow2_def)

lemma dec_500: "dec 500 2 = Finite 5"
  by (simp add: dec_def rnd_5)
lemma dec_360: "dec 360 2 = Finite (8106479329266893 / 2251799813685248)"
  by (simp add: dec_def rnd_3_6)
lemma dec_860: "dec 860 2 = Finite (4841369599423283 / 562949953421312)"
  by (simp add: dec_def rnd_8_6)
lemma dec_10320: "dec 10320 2 = Finite (7262054399134925 / 70368744177664)"
  by (simp add: dec_def rnd_103_2)
lemma dec_29: "dec 29 2 = Finite (5224175567749775 / 18014398509481984)"
  by (simp add: dec_def rnd_0_29)

lemma rnd_3_6_exact:
  "rnd (8106479329266893 / 2251799813685248) = Finite (8106479329266893 / 2251799813685248)"
  using rnd_eqI [of "1" "8106479329266893 / 2251799813685248" "8106479329266893"]
    round_half_even_eqI [of "8106479329266893 / 2251799813685248 / pow2 (1 - 52)" "8106479329266893"]
  by (simp add: pow2_def)

lemma example_total:
  "tally [ebs_entry, eip_entry] (Finite 0) [(''ebs_volume'', 0), (''snapshot'', 0), (''elastic_ip'', 0)]
   = Inr (Finite (4841369599423283 / 562949953421312),
          [(''ebs_volume'', 1), (''snapshot'', 0), (''elastic_ip'', 1)])"
  by (simp add: ebs_entry_def eip_entry_def item_savings_def item_resource_type_def
      count_resource_type_def dec_500 dec_360 rnd_5 rnd_5_plus_3_6)

lemma example_total_swapped:
  "tally [eip_entry, ebs_entry] (Finite 0) [(''ebs_volume'', 0), (''snapshot'', 0), (''elastic_ip'', 0)]
   = Inr (Finite (4841369599423283 / 562949953421312),
          [(''ebs_volume'', 1), (''snapshot'', 0), (''elastic_ip'', 1)])"
  by (simp add: ebs_entry_def eip_entry_def item_savings_def item_resource_type_def
      count_resource_type_def dec_500 dec_360 rnd_3_6_exact rnd_5_plus_3_6)

lemma example_strptime:
  "strptime ''2025-01-01'' = Some \<lparr>year = 2025, month = 1, day = 1\<rparr>"
  "strptime ''2025-01-10'' = Some \<lparr>year = 2025, month = 1, day = 10\<rparr>"
  by (simp_all add: is_digit_def in_range_def digit_value_def make_date_def valid_date_def
      days_in_month_def days_in_month_of_def is_leap_def)

lemma example_span:
  "toordinal \<lparr>year = 2025, month = 1, day = 10\<rparr> - toordinal \<lparr>year = 2025, month = 1, day = 1\<rparr> + 1
     = 10"
  by (simp add: toordinal_def days_before_year_def days_before_month_def days_before_month_of_def)

lemma example_order:
  "min ''2025-01-01'' ''2025-01-10'' = ''2025-01-01''" "max ''2025-01-01'' ''2025-01-10'' = ''2025-01-10''"
  "min ''2025-01-10'' ''2025-01-01'' = ''2025-01-01''" "max ''2025-01-10'' ''2025-01-01'' = ''2025-01-10''"
  by (simp_all add: min_def max_def)

lemma example_dates:
  "date_range [ebs_entry, eip_entry] = Inr (''2025-01-01'', ''2025-01-10'', 10)"
  "date_range [eip_entry, ebs_entry] = Inr (''2025-01-01'', ''2025-01-10'', 10)"
  by (simp_all add: date_range_def ebs_entry_def eip_entry_def example_order example_strptime
      example_span del: strptime.simps)

lemma example_average:
  "average_per_day (Finite (4841369599423283 / 562949953421312)) = Inr (dec 29 2)"
  by (simp add: average_per_day_def fdiv_def rnd_daily cents_daily dec_29 rnd_0_29)


lemma tally_total:
  "map item_savings items = map Inr xs \<Longrightarrow>
     \<exists>counts'. tally items t counts = Inr (foldl fadd t xs, counts')"
proof (induction items arbitrary: t counts xs)
  case Nil
  then show ?case by simp
next
  case (Cons item items)
  from Cons.prems obtain x xs' where xs: "xs = x # xs'" and x: "item_savings item = Inr x"
    and rest: "map item_savings items = map Inr xs'"
    by (cases xs) auto
  from Cons.IH [OF rest] show ?case by (simp add: xs x)
qed

lemma average_per_day_cases:
  "average_per_day t =
     Inr (case t of
            Finite a \<Rightarrow> if 0 < a then py_round (rnd (a / 30)) 2 else Finite 0
          | PosInf \<Rightarrow> PosInf
          | _ \<Rightarrow> Finite 0)"
  by (cases t) (simp_all add: average_per_day_def fdiv_def signed_inf_def)

lemma average_fixed_divisor:
  assumes "map item_savings items = map Inr xs"
    and "query_lambda_handler (Returned items) = Status200 r"
  shows "average_savings_per_day r =
           (case foldl fadd (Finite 0) xs of
              Finite a \<Rightarrow> if 0 < a then py_round (rnd (a / 30)) 2 else Finite 0
            | PosInf \<Rightarrow> PosInf
            | _ \<Rightarrow> Finite 0)"
proof -
  from tally_total [OF assms(1)] obtain counts' where
    t: "tally items (Finite 0) [(''ebs_volume'', 0), (''snapshot'', 0), (''elastic_ip'', 0)]
          = Inr (foldl fadd (Finite 0) xs, counts')"
    by blast
  from assms(2) show ?thesis
    by (auto simp: query_lambda_handler_def t average_per_day_cases split: sum.splits)
qed

text \<open>
  C8. For the ledger that holds one \<^verbatim>\<open>ebs_volume\<close> entry (savings 5.00, 2025-01-01) and one
  \<^verbatim>\<open>elastic_ip\<close> entry (savings 3.60, 2025-01-10), in whichever of the two orders the scan
  returns them, the handler reports total monthly savings 8.60, the breakdown
  ebs_volume 1, elastic_ip 1, snapshot 0, the first and last dates 2025-01-01 and
  2025-01-10, and the average per day 0.29. In general, whenever the handler answers
  with status 200, the average is the float sum of the savings divided by 30 and rounded
  to two places when that sum is positive, and 0 otherwise; no date enters it.
\<close>

theorem two_entry_ledger_report:
  "query_lambda_handler (Returned [ebs_entry, eip_entry]) =
     Status200
       \<lparr>total_resources_deleted = 2,
        total_monthly_savings = dec 860 2,
        total_annual_savings = dec 10320 2,
        resource_breakdown = [(''ebs_volume'', 1), (''snapshot'', 0), (''elastic_ip'', 1)],
        first_deletion_date = ''2025-01-01'',
        last_deletion_date = ''2025-01-10'',
        days_operating = 10,
        average_savings_per_day = dec 29 2\<rparr>
   \<and> query_lambda_handler (Returned [eip_entry, ebs_entry]) =
     Status200
       \<lparr>total_resources_deleted = 2,
        total_monthly_savings = dec 860 2,
        total_annual_savings = dec 10320 2,
        resource_breakdown = [(''ebs_volume'', 1), (''snapshot'', 0), (''elastic_ip'', 1)],
        first_deletion_date = ''2025-01-01'',
        last_deletion_date = ''2025-01-10'',
        days_operating = 10,
        average_savings_per_day = dec 29 2\<rparr>
   \<and> (\<forall>items xs r.
         map item_savings items = map Inr xs \<longrightarrow>
         query_lambda_handler (Returned items) = Status200 r \<longrightarrow>
         average_savings_per_day r =
           (case foldl fadd (Finite 0) xs of
              Finite a \<Rightarrow> if 0 < a then py_round (rnd (a / 30)) 2 else Finite 0
            | PosInf \<Rightarrow> PosInf
            | _ \<Rightarrow> Finite 0))"
proof (intro conjI allI impI)
  show "query_lambda_handler (Returned [ebs_entry, eip_entry]) =
     Status200
       \<lparr>total_resources_deleted = 2,
        total_monthly_savings = dec 860 2,
        total_annual_savings = dec 10320 2,
        resource_breakdown = [(''ebs_volume'', 1), (''snapshot'', 0), (''elastic_ip'', 1)],
        first_deletion_date = ''2025-01-01'',
        last_deletion_date = ''2025-01-10'',
        days_operating = 10,
        average_savings_per_day = dec 29 2\<rparr>"
    unfolding query_lambda_handler_def outcome.case example_total example_dates
    by (simp add: example_average cents_monthly rnd_8_6 dec_860 rnd_annual cents_annual rnd_103_2 dec_10320)
next
  show "query_lambda_handler (Returned [eip_entry, ebs_entry]) =
     Status200
       \<lparr>total_resources_deleted = 2,
        total_monthly_savings = dec 860 2,
        total_annual_savings = dec 10320 2,
        resource_breakdown = [(''ebs_volume'', 1), (''snapshot'', 0), (''elastic_ip'', 1)],
        first_deletion_date = ''2025-01-01'',
        last_deletion_date = ''2025-01-10'',
        days_operating = 10,
        average_savings_per_day = dec 29 2\<rparr>"
    unfolding query_lambda_handler_def outcome.case example_total_swapped example_dates
    by (simp add: example_average cents_monthly rnd_8_6 dec_860 rnd_annual cents_annual rnd_103_2 dec_10320)
next
  fix items xs r
  assume "map item_savings items = map Inr xs"
    and "query_lambda_handler (Returned items) = Status200 r"
  then show "average_savings_per_day r =
           (case foldl fadd (Finite 0) xs of
              Finite a \<Rightarrow> if 0 < a then py_round (rnd (a / 30)) 2 else Finite 0
            | PosInf \<Rightarrow> PosInf
            | _ \<Rightarrow> Finite 0)"
    by (rule average_fixed_divisor)
qed

lemma example_savings_swapped:
  "map item_savings [eip_entry, ebs_entry] = map Inr [dec 360 2, dec 500 2]"
  by (simp add: item_savings_def ebs_entry_def eip_entry_def)

lemma example_sum_swapped:
  "foldl fadd (Finite 0) [dec 360 2, dec 500 2] = Finite (4841369599423283 / 562949953421312)"
  by (simp add: dec_500 dec_360 rnd_3_6_exact rnd_5_plus_3_6)

theorem two_entry_ledger_report_witness:
  "map item_savings [eip_entry, ebs_entry] = map Inr [dec 360 2, dec 500 2]
   \<and> query_lambda_handler (Returned [eip_entry, ebs_entry]) =
       Status200
         \<lparr>total_resources_deleted = 2,
          total_monthly_savings = dec 860 2,
          total_annual_savings = dec 10320 2,
          resource_breakdown = [(''ebs_volume'', 1), (''snapshot'', 0), (''elastic_ip'', 1)],
          first_deletion_date = ''2025-01-01'',
          last_deletion_date = ''2025-01-10'',
          days_operating = 10,
          average_savings_per_day = dec 29 2\<rparr>
   \<and> foldl fadd (Finite 0) [dec 360 2, dec 500 2] = Finite (4841369599423283 / 562949953421312)
   \<and> dec 29 2 = py_round (rnd (4841369599423283 / 562949953421312 / 30)) 2"
proof -
  note report = two_entry_ledger_report [THEN conjunct2, THEN conjunct1]
  from two_entry_ledger_report [THEN conjunct2, THEN conjunct2, rule_format,
      OF example_savings_swapped report]
  have "dec 29 2 = py_round (rnd (4841369599423283 / 562949953421312 / 30)) 2"
    unfolding example_sum_swapped by simp
  with example_savings_swapped report example_sum_swapped show ?thesis
    by (simp only: simp_thms)
qed

section \<open>Which resources enter the lifecycle\<close>

subsection \<open>The volumes the Reaper asks to delete\<close>

lemma volume_deletions_Nil [simp]: "volume_deletions [] = []"
  by (simp add: volume_deletions_def)

lemma volume_deletions_append [simp]:
  "volume_deletions (a @ b) = volume_deletions a @ volume_deletions b"
  by (simp add: volume_deletions_def)

lemma volume_deletions_Cons [simp]:
  "volume_deletions (e # tr) = delete_volume_call e @ volume_deletions tr"
  by (simp add: volume_deletions_def)
















subsection \<open>What the Finder flags and totals\<close>





subsection \<open>The Finder on the small account\<close>




































end
